theory Spec2Isabelle
  imports Main "HOL-Library.Word" "HOL-Library.Sublist"
begin

section \<open>PhantomDNS: query router, upstream resolver, session cache, worker client\<close>

text \<open>
  A shallow embedding of \<^verbatim>\<open>main.go\<close> and \<^verbatim>\<open>blessnet.go\<close>. Go strings are byte
  strings (\<open>string\<close>), slices are lists, structs are records. Everything the code
  takes from outside the process (the upstream DNS exchange, the HTTP round trip to the
  worker, the wall clock, the zone-file parser and the random message id of the DNS
  library, the authentication endpoint) is a field of the record \<open>env\<close>; everything
  it does to the outside (the exchanges it issues, the worker calls, the authentication
  requests, the replies it writes, its log lines) is appended to a trace in the record
  \<open>world\<close>, which the functions pass along.
\<close>

subsection \<open>Go's \<^verbatim>\<open>strings\<close> package\<close>

definition HasSuffix :: "string \<Rightarrow> string \<Rightarrow> bool" where
  "HasSuffix s suff =
     (length s \<ge> length suff \<and> drop (length s - length suff) s = suff)"

definition HasPrefix :: "string \<Rightarrow> string \<Rightarrow> bool" where
  "HasPrefix s pre = (length s \<ge> length pre \<and> take (length pre) s = pre)"

definition TrimSuffix :: "string \<Rightarrow> string \<Rightarrow> string" where
  "TrimSuffix s suff =
     (if HasSuffix s suff then take (length s - length suff) s else s)"

fun Contains :: "string \<Rightarrow> string \<Rightarrow> bool" where
  "Contains [] substr = (substr = [])"
| "Contains (c # cs) substr = (HasPrefix (c # cs) substr \<or> Contains cs substr)"

subsection \<open>Configuration\<close>

record Config =
  DNSPort :: int
  DNSListen :: string
  Nameservers :: "string list"
  BlessnetWorkerURL :: string
  BlessnetAPIKey :: string
  BlessnetAPISecret :: string
  BlockedDomains :: "string list"
  ProxyDomains :: "string list"
  ProxyMode :: string

subsection \<open>DNS messages (the part of \<^verbatim>\<open>dns.Msg\<close> the handler touches)\<close>

record Question =
  Name :: string
  Qtype :: "16 word"
  Qclass :: "16 word"

text \<open>
  The resource-record type \<open>'rr\<close> stands for a value of the library's interface
  \<^verbatim>\<open>dns.RR\<close>; the handler only moves such values around.
\<close>

record 'rr Msg =
  Id :: "16 word"
  Response :: bool
  Opcode :: int
  RecursionDesired :: bool
  CheckingDisabled :: bool
  Rcode :: int
  Compress :: bool
  Questions :: "Question list"
  Answer :: "'rr list"

definition TypeA :: "16 word" where "TypeA = 1"
definition ClassINET :: "16 word" where "ClassINET = 1"
definition OpcodeQuery :: int where "OpcodeQuery = 0"
definition RcodeSuccess :: int where "RcodeSuccess = 0"
definition RcodeServerFailure :: int where "RcodeServerFailure = 2"

text \<open>\<^verbatim>\<open>new(dns.Msg)\<close>: every field at its zero value.\<close>

definition new_Msg :: "'rr Msg" where
  "new_Msg = \<lparr>Id = 0, Response = False, Opcode = 0, RecursionDesired = False,
     CheckingDisabled = False, Rcode = 0, Compress = False, Questions = [], Answer = []\<rparr>"

text \<open>
  \<^verbatim>\<open>(*dns.Msg).SetReply\<close> and \<^verbatim>\<open>(*dns.Msg).SetQuestion\<close> belong to the DNS library
  (github.com/miekg/dns), which the repository imports. \<^verbatim>\<open>SetReply\<close> copies the id and
  the opcode, sets the response bit and the success response code, and keeps the first
  question of the request only. \<^verbatim>\<open>SetQuestion\<close> draws a fresh id, asks for recursion and
  installs one question of class INET.
\<close>

definition SetReply :: "'rr Msg \<Rightarrow> 'rr Msg \<Rightarrow> 'rr Msg" where
  "SetReply m request =
     (let m1 = m\<lparr>Id := Id request, Response := True, Opcode := Opcode request\<rparr>;
          m2 = (if Opcode m1 = OpcodeQuery
                then m1\<lparr>RecursionDesired := RecursionDesired request,
                        CheckingDisabled := CheckingDisabled request\<rparr>
                else m1);
          m3 = m2\<lparr>Rcode := RcodeSuccess\<rparr>
      in case Questions request of
           [] \<Rightarrow> m3
         | q # _ \<Rightarrow> m3\<lparr>Questions := [q]\<rparr>)"

definition SetQuestion :: "'rr Msg \<Rightarrow> 16 word \<Rightarrow> string \<Rightarrow> 16 word \<Rightarrow> 'rr Msg" where
  "SetQuestion m fresh_id z t =
     m\<lparr>Id := fresh_id, RecursionDesired := True,
       Questions := [\<lparr>Name = z, Qtype = t, Qclass = ClassINET\<rparr>]\<rparr>"

subsection \<open>The outside world\<close>

datatype 'rr exchange_result =
    ExchangeErr string
  | ExchangeOk "'rr Msg option"

record http_response =
  Status :: string
  StatusCode :: int
  Body :: "string + string"

datatype http_outcome =
    NewRequestErr string
  | DoErr string
  | DoOk http_response

text \<open>
  The decoded body of the authentication endpoint (\<^verbatim>\<open>AuthResponse\<close>), and what a POST to
  that endpoint yields: the status line, the bytes \<^verbatim>\<open>ioutil.ReadAll\<close> reads from the body
  (the code drops its error) and what the JSON decoder makes of the body.
\<close>

record AuthResponse =
  AccessToken :: string
  TokenType :: string
  ExpiresIn :: int
  RefreshToken :: string
  resp_ExpiresAt :: int

record post_response =
  post_Status :: string
  post_StatusCode :: int
  post_Body :: string
  post_Decoded :: "string + AuthResponse"

datatype post_outcome =
    MarshalErr string
  | PostErr string
  | PostOk post_response

datatype log_event =
    LogQueryFor string
  | LogProxying string
  | LogUpstreamError string string
  | LogFetching string
  | LogWorkerStatus string
  | LogNon200 int string
  | LogCloudflare
  | LogUsingExisting int
  | LogAuthenticating
  | LogAuthSuccess int

text \<open>
  \<open>Exchange e n msg addr\<close> is what \<^verbatim>\<open>c.Exchange(msg, addr)\<close> returns when it is the
  \<open>n\<close>-th exchange of the process; \<open>Do e n url target\<close> is what the HTTP round trip
  to \<open>url\<close> with query parameter \<^verbatim>\<open>TARGET\<close> = \<open>target\<close> returns when it is the
  \<open>n\<close>-th worker call; \<open>Post e n url key secret\<close> is what the POST of the key and
  the secret to \<open>url\<close> yields when it is the \<open>n\<close>-th authentication request;
  \<open>Now e n\<close> is the \<open>n\<close>-th reading of \<^verbatim>\<open>time.Now()\<close>, an instant in nanoseconds
  counted from the zero value of \<^verbatim>\<open>time.Time\<close>; \<open>FormatRFC3339 e t\<close> is
  \<^verbatim>\<open>t.Format(time.RFC3339)\<close>; \<open>NewRR e s\<close> is \<open>Some rr\<close> when
  \<^verbatim>\<open>dns.NewRR(s)\<close> returns \<^verbatim>\<open>rr\<close> with a nil error.
\<close>

record 'rr env =
  Exchange :: "nat \<Rightarrow> 'rr Msg \<Rightarrow> string \<Rightarrow> 'rr exchange_result"
  RandId :: "nat \<Rightarrow> 16 word"
  NewRR :: "string \<Rightarrow> 'rr option"
  Do :: "nat \<Rightarrow> string \<Rightarrow> string \<Rightarrow> http_outcome"
  Post :: "nat \<Rightarrow> string \<Rightarrow> string \<Rightarrow> string \<Rightarrow> post_outcome"
  Now :: "nat \<Rightarrow> int"
  FormatRFC3339 :: "int \<Rightarrow> string"

record 'rr world =
  exchanges :: "('rr Msg \<times> string) list"
  worker_calls :: "(string \<times> string) list"
  auth_calls :: "(string \<times> string \<times> string) list"
  written :: "'rr Msg list"
  ticks :: nat
  logs :: "log_event list"

definition log_Printf :: "log_event \<Rightarrow> 'rr world \<Rightarrow> 'rr world" where
  "log_Printf ev w = w\<lparr>logs := logs w @ [ev]\<rparr>"

subsection \<open>\<^verbatim>\<open>main.go\<close>: classifier and query router\<close>

fun isProxyDomain_loop :: "string list \<Rightarrow> string \<Rightarrow> bool" where
  "isProxyDomain_loop [] domain = False"
| "isProxyDomain_loop (d # ds) domain =
     (if HasSuffix domain d then True else isProxyDomain_loop ds domain)"

definition isProxyDomain :: "Config \<Rightarrow> string \<Rightarrow> bool" where
  "isProxyDomain config domain = isProxyDomain_loop (ProxyDomains config) domain"

datatype route = Passthrough | Proxied

text \<open>The routing decision of \<^verbatim>\<open>handleDNSRequest\<close> for a question of type A.\<close>

definition classify :: "Config \<Rightarrow> string \<Rightarrow> route" where
  "classify config qname =
     (if isProxyDomain config (TrimSuffix qname ''.'') then Proxied else Passthrough)"

definition handleProxiedDomain ::
  "'rr env \<Rightarrow> 'rr Msg \<Rightarrow> Question \<Rightarrow> 'rr world \<Rightarrow> 'rr Msg \<times> 'rr world" where
  "handleProxiedDomain e m q w =
     (let w1 = log_Printf (LogProxying (Name q)) w
      in case NewRR e (Name q @ '' A 192.168.1.1'') of
           Some rr \<Rightarrow> (m\<lparr>Answer := Answer m @ [rr]\<rparr>, w1)
         | None \<Rightarrow> (m, w1))"

fun forwardToUpstream_loop ::
  "'rr env \<Rightarrow> Question \<Rightarrow> string list \<Rightarrow> 'rr Msg \<Rightarrow> 'rr world \<Rightarrow> 'rr Msg \<times> 'rr world" where
  "forwardToUpstream_loop e q [] m w = (m, w)"
| "forwardToUpstream_loop e q (ns # rest) m w =
     (let n = length (exchanges w);
          upstreamMsg = SetQuestion new_Msg (RandId e n) (Name q) (Qtype q);
          addr = ns @ '':53'';
          w1 = w\<lparr>exchanges := exchanges w @ [(upstreamMsg, addr)]\<rparr>
      in case Exchange e n upstreamMsg addr of
           ExchangeErr err \<Rightarrow>
             forwardToUpstream_loop e q rest m (log_Printf (LogUpstreamError ns err) w1)
         | ExchangeOk None \<Rightarrow> forwardToUpstream_loop e q rest m w1
         | ExchangeOk (Some r) \<Rightarrow>
             (if length (Answer r) > 0 then (m\<lparr>Answer := Answer m @ Answer r\<rparr>, w1)
              else forwardToUpstream_loop e q rest m w1))"

definition forwardToUpstream ::
  "'rr env \<Rightarrow> Config \<Rightarrow> 'rr Msg \<Rightarrow> Question \<Rightarrow> 'rr world \<Rightarrow> 'rr Msg \<times> 'rr world" where
  "forwardToUpstream e config m q w = forwardToUpstream_loop e q (Nameservers config) m w"

text \<open>The body of the loop over the questions of the reply.\<close>

definition handleQuestion ::
  "'rr env \<Rightarrow> Config \<Rightarrow> Question \<Rightarrow> 'rr Msg \<Rightarrow> 'rr world \<Rightarrow> 'rr Msg \<times> 'rr world" where
  "handleQuestion e config q m w =
     (if Qtype q = TypeA then
        (let w1 = log_Printf (LogQueryFor (Name q)) w;
             domain = TrimSuffix (Name q) ''.''
         in if isProxyDomain config domain then handleProxiedDomain e m q w1
            else forwardToUpstream e config m q w1)
      else (m, w))"

fun handleQuestions ::
  "'rr env \<Rightarrow> Config \<Rightarrow> Question list \<Rightarrow> 'rr Msg \<Rightarrow> 'rr world \<Rightarrow> 'rr Msg \<times> 'rr world" where
  "handleQuestions e config [] m w = (m, w)"
| "handleQuestions e config (q # qs) m w =
     (case handleQuestion e config q m w of (m1, w1) \<Rightarrow> handleQuestions e config qs m1 w1)"

definition handleDNSRequest :: "'rr env \<Rightarrow> Config \<Rightarrow> 'rr Msg \<Rightarrow> 'rr world \<Rightarrow> 'rr world" where
  "handleDNSRequest e config r w =
     (let m = (SetReply new_Msg r)\<lparr>Compress := False\<rparr>;
          (m1, w1) = (if Opcode r = OpcodeQuery
                      then handleQuestions e config (Questions m) m w
                      else (m, w))
      in w1\<lparr>written := written w1 @ [m1]\<rparr>)"

text \<open>
  \<^verbatim>\<open>fetchFromWorker\<close>: one GET against the fixed worker URL. A request that could not
  be built is not sent; every other outcome has been sent and is recorded in
  \<open>worker_calls\<close>.
\<close>

datatype worker_error =
    ErrCreatingRequest string
  | ErrFetching string
  | ErrReading string
  | ErrStatus int

definition workerURL :: string where
  "workerURL = ''https://apricot-emu-jacklin-qikeha7m.bls.dev/''"

definition StatusOK :: int where "StatusOK = 200"

definition fetchFromWorker ::
  "'rr env \<Rightarrow> string \<Rightarrow> 'rr world \<Rightarrow> (worker_error + string) \<times> 'rr world" where
  "fetchFromWorker e targetURL w =
     (let w1 = log_Printf (LogFetching targetURL) w
      in case Do e (length (worker_calls w1)) workerURL targetURL of
           NewRequestErr err \<Rightarrow> (Inl (ErrCreatingRequest err), w1)
         | DoErr err \<Rightarrow>
             (Inl (ErrFetching err),
              w1\<lparr>worker_calls := worker_calls w1 @ [(workerURL, targetURL)]\<rparr>)
         | DoOk resp \<Rightarrow>
             (let w2 = w1\<lparr>worker_calls := worker_calls w1 @ [(workerURL, targetURL)]\<rparr>;
                  w3 = log_Printf (LogWorkerStatus (Status resp)) w2
              in case Body resp of
                   Inl err \<Rightarrow> (Inl (ErrReading err), w3)
                 | Inr body \<Rightarrow>
                     if StatusCode resp \<noteq> StatusOK then
                       (let w4 = log_Printf (LogNon200 (StatusCode resp) body) w3;
                            w5 = (if StatusCode resp = 403 \<and> Contains body ''Cloudflare''
                                  then log_Printf LogCloudflare w4 else w4)
                        in (Inl (ErrStatus (StatusCode resp)), w5))
                     else (Inr body, w3)))"

subsection \<open>\<^verbatim>\<open>blessnet.go\<close>: the client and its cached credential\<close>

record AuthConfig =
  Username :: string
  Password :: string
  Token :: string
  ExpiresAt :: int

record BlessnetClient =
  client_Config :: Config
  WorkerURL :: string
  Regions :: "string list"
  ActiveNode :: string
  auth :: AuthConfig

text \<open>\<^verbatim>\<open>&AuthConfig{}\<close>, the credential of a client fresh from \<^verbatim>\<open>NewBlessnetClient\<close>.\<close>

definition zero_AuthConfig :: AuthConfig where
  "zero_AuthConfig = \<lparr>Username = [], Password = [], Token = [], ExpiresAt = 0\<rparr>"

text \<open>\<^verbatim>\<open>time.Hour\<close>, in nanoseconds.\<close>

definition Hour :: int where "Hour = 3600 * 1000000000"

text \<open>
  Every call of \<^verbatim>\<open>time.Now()\<close> in the code takes the next reading of the clock. The
  time stamps that the log package puts on its lines are not part of the model.
\<close>

definition time_Now :: "'rr env \<Rightarrow> 'rr world \<Rightarrow> int \<times> 'rr world" where
  "time_Now e w = (Now e (ticks w), w\<lparr>ticks := Suc (ticks w)\<rparr>)"

type_synonym error = string

text \<open>
  \<^verbatim>\<open>Authenticate\<close>. The condition \<^verbatim>\<open>Token != "" && ExpiresAt.After(time.Now())\<close>
  reads the clock only when the token is not empty; \<^verbatim>\<open>time.Until\<close> in the two log
  lines reads it once more. The mutex is taken and released around the two assignments;
  in this sequential model that is no step. The result is the returned \<^verbatim>\<open>error\<close>
  (\<open>None\<close> for nil), the client and the world.
\<close>

definition Authenticate ::
  "'rr env \<Rightarrow> BlessnetClient \<Rightarrow> 'rr world \<Rightarrow> error option \<times> BlessnetClient \<times> 'rr world" where
  "Authenticate e b w =
     (let (valid, w0) =
            (if Token (auth b) \<noteq> []
             then (case time_Now e w of (t, w') \<Rightarrow> (ExpiresAt (auth b) > t, w'))
             else (False, w))
      in if valid then
           (case time_Now e w0 of
              (t1, w1) \<Rightarrow> (None, b, log_Printf (LogUsingExisting (ExpiresAt (auth b) - t1)) w1))
         else
           (let w1 = log_Printf LogAuthenticating w0;
                (t1, w2) = time_Now e w1;
                b1 = b\<lparr>auth := (auth b)\<lparr>Token := ''simulated_token_'' @ FormatRFC3339 e t1\<rparr>\<rparr>;
                (t2, w3) = time_Now e w2;
                b2 = b1\<lparr>auth := (auth b1)\<lparr>ExpiresAt := t2 + 24 * Hour\<rparr>\<rparr>;
                (t3, w4) = time_Now e w3
            in (None, b2, log_Printf (LogAuthSuccess (ExpiresAt (auth b2) - t3)) w4)))"

definition RefreshAuth ::
  "'rr env \<Rightarrow> BlessnetClient \<Rightarrow> 'rr world \<Rightarrow> error option \<times> BlessnetClient \<times> 'rr world" where
  "RefreshAuth e b w = Authenticate e (b\<lparr>auth := (auth b)\<lparr>Token := []\<rparr>\<rparr>) w"

definition SendProxyRequest ::
  "'rr env \<Rightarrow> BlessnetClient \<Rightarrow> string \<Rightarrow> 'rr world \<Rightarrow> (worker_error + string) \<times> 'rr world" where
  "SendProxyRequest e b targetURL w = fetchFromWorker e targetURL w"

subsection \<open>The node API client: the authentication exchange of the repository\<close>

text \<open>
  \<^verbatim>\<open>(*BlessnetNodeAPI).Auth\<close> is the one function of the repository that sends API
  credentials to the authentication endpoint. Every POST it issues is recorded in
  \<open>auth_calls\<close>. \<^verbatim>\<open>time.Duration(ExpiresIn) * time.Second\<close> is a product of
  64-bit integers and wraps around.
\<close>

record BlessnetNodeAPI =
  BaseURL :: string
  APIVersion :: string

datatype node_api_error =
    ErrMarshalingAuth string
  | ErrSendingAuth string
  | ErrAuthFailed string string
  | ErrParsingAuth string

definition Duration_Seconds :: "int \<Rightarrow> int" where
  "Duration_Seconds n = sint ((word_of_int n :: 64 word) * 1000000000)"

definition Auth ::
  "'rr env \<Rightarrow> BlessnetNodeAPI \<Rightarrow> string \<Rightarrow> string \<Rightarrow> 'rr world
     \<Rightarrow> (node_api_error + AuthResponse) \<times> 'rr world" where
  "Auth e api apiKey apiSecret w =
     (let url = BaseURL api @ ''/'' @ APIVersion api @ ''/auth''
      in case Post e (length (auth_calls w)) url apiKey apiSecret of
           MarshalErr err \<Rightarrow> (Inl (ErrMarshalingAuth err), w)
         | PostErr err \<Rightarrow>
             (Inl (ErrSendingAuth err),
              w\<lparr>auth_calls := auth_calls w @ [(url, apiKey, apiSecret)]\<rparr>)
         | PostOk resp \<Rightarrow>
             (let w1 = w\<lparr>auth_calls := auth_calls w @ [(url, apiKey, apiSecret)]\<rparr>
              in if post_StatusCode resp \<noteq> StatusOK
                 then (Inl (ErrAuthFailed (post_Status resp) (post_Body resp)), w1)
                 else case post_Decoded resp of
                        Inl err \<Rightarrow> (Inl (ErrParsingAuth err), w1)
                      | Inr authResp \<Rightarrow>
                          (case time_Now e w1 of
                             (t, w2) \<Rightarrow>
                               (Inr (authResp\<lparr>resp_ExpiresAt :=
                                        t + Duration_Seconds (ExpiresIn authResp)\<rparr>), w2))))"

subsection \<open>Two callers of \<^verbatim>\<open>Authenticate\<close> at once\<close>

text \<open>
  \<^verbatim>\<open>Authenticate\<close> cut into the steps between which another goroutine can run. The
  validity test is made without the mutex; the mutex is held from \<^verbatim>\<open>b.mutex.Lock()\<close>
  to \<^verbatim>\<open>b.mutex.Unlock()\<close>, around the two assignments. The goroutines share the client,
  the world and the mutex (\<open>holder\<close>: who holds it); each has its own position. A
  goroutine that asks for a held mutex stays where it is. \<open>run e sched c\<close> lets the
  goroutines step in the order that the list \<open>sched\<close> names them.
\<close>

datatype position =
    AtCheck
  | AtLogValid
  | AtLogAuthenticating
  | AtLock
  | AtSetToken
  | AtSetExpiresAt
  | AtUnlock
  | AtLogSuccess
  | ReturnedNil

record 'rr shared =
  client :: BlessnetClient
  cworld :: "'rr world"
  holder :: "nat option"
  positions :: "position list"

definition move :: "nat \<Rightarrow> position \<Rightarrow> 'rr shared \<Rightarrow> 'rr shared" where
  "move i p c = c\<lparr>positions := (positions c)[i := p]\<rparr>"

definition step :: "'rr env \<Rightarrow> nat \<Rightarrow> 'rr shared \<Rightarrow> 'rr shared" where
  "step e i c =
     (if i < length (positions c) then
        (let b = client c; w = cworld c
         in case positions c ! i of
              AtCheck \<Rightarrow>
                (if Token (auth b) \<noteq> []
                 then (case time_Now e w of
                         (t, w') \<Rightarrow>
                           move i (if ExpiresAt (auth b) > t then AtLogValid
                                   else AtLogAuthenticating) (c\<lparr>cworld := w'\<rparr>))
                 else move i AtLogAuthenticating c)
            | AtLogValid \<Rightarrow>
                (case time_Now e w of
                   (t1, w1) \<Rightarrow>
                     move i ReturnedNil
                       (c\<lparr>cworld := log_Printf (LogUsingExisting (ExpiresAt (auth b) - t1)) w1\<rparr>))
            | AtLogAuthenticating \<Rightarrow>
                move i AtLock (c\<lparr>cworld := log_Printf LogAuthenticating w\<rparr>)
            | AtLock \<Rightarrow>
                (if holder c = None then move i AtSetToken (c\<lparr>holder := Some i\<rparr>) else c)
            | AtSetToken \<Rightarrow>
                (case time_Now e w of
                   (t1, w2) \<Rightarrow>
                     move i AtSetExpiresAt
                       (c\<lparr>client := b\<lparr>auth := (auth b)\<lparr>Token :=
                                         ''simulated_token_'' @ FormatRFC3339 e t1\<rparr>\<rparr>,
                          cworld := w2\<rparr>))
            | AtSetExpiresAt \<Rightarrow>
                (case time_Now e w of
                   (t2, w3) \<Rightarrow>
                     move i AtUnlock
                       (c\<lparr>client := b\<lparr>auth := (auth b)\<lparr>ExpiresAt := t2 + 24 * Hour\<rparr>\<rparr>,
                          cworld := w3\<rparr>))
            | AtUnlock \<Rightarrow> move i AtLogSuccess (c\<lparr>holder := None\<rparr>)
            | AtLogSuccess \<Rightarrow>
                (case time_Now e w of
                   (t3, w4) \<Rightarrow>
                     move i ReturnedNil
                       (c\<lparr>cworld := log_Printf (LogAuthSuccess (ExpiresAt (auth b) - t3)) w4\<rparr>))
            | ReturnedNil \<Rightarrow> c)
      else c)"

fun run :: "'rr env \<Rightarrow> nat list \<Rightarrow> 'rr shared \<Rightarrow> 'rr shared" where
  "run e [] c = c"
| "run e (i # sched) c = run e sched (step e i c)"





subsection \<open>The classifier as the specification words it\<close>

text \<open>
  A second classifier, written from the specification: names and suffixes are compared
  after lower-casing, and a name matches a suffix when it is the suffix or ends with a
  dot followed by the suffix.
\<close>

definition ascii_lower :: "char \<Rightarrow> char" where
  "ascii_lower c =
     (let n = (of_char c :: nat) in if 65 \<le> n \<and> n \<le> 90 then char_of (n + 32) else c)"

definition spec_matches :: "string \<Rightarrow> string \<Rightarrow> bool" where
  "spec_matches d s =
     (let d' = map ascii_lower d; s' = map ascii_lower s
      in d' = s' \<or> HasSuffix d' (''.'' @ s'))"

definition spec_classify :: "string list \<Rightarrow> string \<Rightarrow> route" where
  "spec_classify S d = (if \<exists>s \<in> set S. spec_matches d s then Proxied else Passthrough)"

subsection \<open>Concrete settings, clients and environments\<close>

definition example_config :: "string list \<Rightarrow> string list \<Rightarrow> Config" where
  "example_config nss pds =
     \<lparr>DNSPort = 53, DNSListen = ''127.0.0.1'', Nameservers = nss,
      BlessnetWorkerURL = ''https://apricot-emu-jacklin-qikeha7m.bls.dev'',
      BlessnetAPIKey = [], BlessnetAPISecret = [], BlockedDomains = [],
      ProxyDomains = pds, ProxyMode = ''ephemeral''\<rparr>"

definition example_client :: BlessnetClient where
  "example_client =
     \<lparr>client_Config = example_config [''8.8.8.8'', ''1.1.1.1''] [''blocked.org''],
      WorkerURL = ''https://apricot-emu-jacklin-qikeha7m.bls.dev'',
      Regions = [''us-east'', ''eu-west'', ''ap-east''], ActiveNode = [],
      auth = zero_AuthConfig\<rparr>"

text \<open>
  \<^verbatim>\<open>t.Format(time.RFC3339)\<close> in UTC for the instants of the first minute after the zero
  instant: the format has a resolution of one second.
\<close>

definition two_digits :: "nat \<Rightarrow> string" where
  "two_digits n = [''0123456789'' ! (n div 10 mod 10), ''0123456789'' ! (n mod 10)]"

definition format_first_minute :: "int \<Rightarrow> string" where
  "format_first_minute t =
     ''0001-01-01T00:00:'' @ two_digits (nat (t div 1000000000 mod 60)) @ ''Z''"

text \<open>An authentication endpoint that accepts every key and issues a token for an hour.\<close>

definition example_post :: post_outcome where
  "example_post =
     PostOk \<lparr>post_Status = ''200 OK'', post_StatusCode = 200, post_Body = [],
       post_Decoded = Inr \<lparr>AccessToken = ''issued-by-the-api'', TokenType = ''Bearer'',
         ExpiresIn = 3600, RefreshToken = [], resp_ExpiresAt = 0\<rparr>\<rparr>"

text \<open>
  An environment over resource records in presentation form: the \<open>n\<close>-th exchange and
  the \<open>n\<close>-th worker call are given by the two arguments, the clock advances by one
  second per reading.
\<close>

definition example_env ::
  "(nat \<Rightarrow> string exchange_result) \<Rightarrow> (nat \<Rightarrow> http_outcome) \<Rightarrow> string env" where
  "example_env ex h =
     \<lparr>Exchange = (\<lambda>n msg addr. ex n), RandId = (\<lambda>n. of_nat n), NewRR = (\<lambda>s. Some s),
      Do = (\<lambda>n url target. h n), Post = (\<lambda>n url key secret. example_post),
      Now = (\<lambda>n. int n * 1000000000), FormatRFC3339 = format_first_minute\<rparr>"

definition empty_world :: "string world" where
  "empty_world =
     \<lparr>exchanges = [], worker_calls = [], auth_calls = [], written = [], ticks = 0, logs = []\<rparr>"

definition example_query :: "string \<Rightarrow> 16 word \<Rightarrow> string Msg" where
  "example_query name t =
     new_Msg\<lparr>Id := 7, RecursionDesired := True,
       Questions := [\<lparr>Name = name, Qtype = t, Qclass = ClassINET\<rparr>]\<rparr>"

subsection \<open>What the upstream resolver is told about the network\<close>

text \<open>
  An exchange has failed for the resolver when it returned an error, no message, or a
  message without answer records. \<open>attempt e q nss n0 i\<close> is the outcome of the exchange
  with the \<open>i\<close>-th nameserver of \<open>nss\<close> when \<open>n0\<close> exchanges came before the loop;
  \<open>contacted w\<close> lists the addresses of all exchanges so far, in order.
\<close>

definition upstream_failed :: "'rr exchange_result \<Rightarrow> bool" where
  "upstream_failed res =
     (case res of
        ExchangeErr err \<Rightarrow> True
      | ExchangeOk None \<Rightarrow> True
      | ExchangeOk (Some r) \<Rightarrow> Answer r = [])"

definition attempt ::
  "'rr env \<Rightarrow> Question \<Rightarrow> string list \<Rightarrow> nat \<Rightarrow> nat \<Rightarrow> 'rr exchange_result" where
  "attempt e q nss n0 i =
     Exchange e (n0 + i) (SetQuestion new_Msg (RandId e (n0 + i)) (Name q) (Qtype q))
       (nss ! i @ '':53'')"

definition contacted :: "'rr world \<Rightarrow> string list" where
  "contacted w = map snd (exchanges w)"

subsection \<open>Concrete networks\<close>

text \<open>
  A network in which the first exchange times out, the second returns a reply without
  answer records and every later one returns a reply with one address record; a network
  in which no exchange succeeds; and three worker endpoints of which the first answers
  with a challenge page, the second cannot be reached and the third delivers the page.
\<close>

definition example_answer :: "string Msg" where
  "example_answer =
     new_Msg\<lparr>Response := True, Answer := [''example.com. 300 IN A 93.184.216.34'']\<rparr>"

definition example_exchanges :: "nat \<Rightarrow> string exchange_result" where
  "example_exchanges n =
     (if n = 0 then ExchangeErr ''i/o timeout''
      else if n = 1 then ExchangeOk (Some new_Msg)
      else ExchangeOk (Some example_answer))"

definition failing_exchanges :: "nat \<Rightarrow> string exchange_result" where
  "failing_exchanges n =
     (if even n then ExchangeErr ''i/o timeout'' else ExchangeOk (Some new_Msg))"

definition response :: "int \<Rightarrow> string \<Rightarrow> http_outcome" where
  "response code body = DoOk \<lparr>Status = ''HTTP status'', StatusCode = code, Body = Inr body\<rparr>"

definition three_endpoints :: "nat \<Rightarrow> http_outcome" where
  "three_endpoints n =
     (if n = 0 then response 403 ''<title>Attention Required! | Cloudflare</title>''
      else if n = 1 then DoErr ''dial tcp: i/o timeout''
      else response 200 ''<html>news</html>'')"

definition no_worker :: "nat \<Rightarrow> http_outcome" where
  "no_worker n = DoErr ''dial tcp: i/o timeout''"

definition example_question :: Question where
  "example_question = \<lparr>Name = ''example.com.'', Qtype = TypeA, Qclass = ClassINET\<rparr>"

definition four_nameservers :: Config where
  "four_nameservers = example_config [''10.0.0.1'', ''10.0.0.2'', ''10.0.0.3'', ''10.0.0.4''] []"

subsection \<open>Concrete clients and clocks\<close>

text \<open>
  A client that holds a credential valid for a day; the environment whose clock advances
  by one second per reading, the one whose clock advances by one millisecond per reading
  and the one whose clock shows a new value only every eighth reading; a node API client;
  and a fresh client after one and after two forced refreshes in a given environment.
\<close>

definition cached_client :: BlessnetClient where
  "cached_client =
     example_client\<lparr>auth := zero_AuthConfig\<lparr>Token := ''simulated_token_0'',
                                              ExpiresAt := 24 * Hour\<rparr>\<rparr>"

definition example_clock :: "string env" where
  "example_clock = example_env failing_exchanges no_worker"

definition millisecond_clock :: "string env" where
  "millisecond_clock = example_clock\<lparr>Now := (\<lambda>n. int n * 1000000)\<rparr>"

definition coarse_clock :: "string env" where
  "coarse_clock = example_clock\<lparr>Now := (\<lambda>n. int (n div 8) * 15625000)\<rparr>"

definition example_api :: BlessnetNodeAPI where
  "example_api = \<lparr>BaseURL = ''https://api.bless.network'', APIVersion = ''v1''\<rparr>"

definition once_refreshed :: "string env \<Rightarrow> error option \<times> BlessnetClient \<times> string world" where
  "once_refreshed e = RefreshAuth e example_client empty_world"

definition twice_refreshed :: "string env \<Rightarrow> error option \<times> BlessnetClient \<times> string world" where
  "twice_refreshed e =
     RefreshAuth e (fst (snd (once_refreshed e))) (snd (snd (once_refreshed e)))"

section \<open>Properties\<close>

subsection \<open>Domain classifier\<close>

lemma HasSuffix_suffix: "HasSuffix s x \<longleftrightarrow> suffix x s"
proof
  assume "HasSuffix s x"
  then have "s = take (length s - length x) s @ x"
    by (metis HasSuffix_def append_take_drop_id)
  then show "suffix x s" by (rule suffixI)
next
  assume "suffix x s"
  then obtain zs where "s = zs @ x" by (auto simp: suffix_def)
  then show "HasSuffix s x" by (simp add: HasSuffix_def)
qed

lemma isProxyDomain_loop_suffix:
  "isProxyDomain_loop ds domain \<longleftrightarrow> (\<exists>d \<in> set ds. suffix d domain)"
  by (induction ds) (auto simp: HasSuffix_suffix)

text \<open>
  C1 (as the code has it). The classifier answers Proxied exactly when some configured
  suffix is a plain string suffix of the query name without its trailing dot: bytes are
  compared as they are (no case folding) and the match need not start at a label
  boundary. With no suffix configured every name is Passthrough.
\<close>

theorem classify_plain_suffix:
  "(classify config qname = Proxied \<longleftrightarrow>
      (\<exists>s \<in> set (ProxyDomains config). suffix s (TrimSuffix qname ''.'')))
   \<and> classify (config\<lparr>ProxyDomains := []\<rparr>) qname = Passthrough"
  by (simp add: classify_def isProxyDomain_def isProxyDomain_loop_suffix)

theorem classify_plain_suffix_witness:
  "classify (example_config [] [''blocked.org'']) ''news.blocked.org.'' = Proxied
   \<and> classify ((example_config [] [''blocked.org''])\<lparr>ProxyDomains := []\<rparr>)
        ''news.blocked.org.'' = Passthrough"
  using classify_plain_suffix [of "example_config [] [''blocked.org'']" "''news.blocked.org.''"]
  by (simp add: example_config_def TrimSuffix_def HasSuffix_def suffix_def)

text \<open>
  C1 as the specification states it fails twice. With the suffix \<open>blocked.org\<close>
  configured, \<open>notblocked.org\<close> is Proxied by the code although it neither equals the
  suffix nor ends with a dot followed by it; and \<open>NEWS.BLOCKED.ORG\<close> is Passthrough for
  the code although it matches the suffix when case is ignored.
\<close>

theorem classify_counterexample:
  "classify (example_config [] [''blocked.org'']) ''notblocked.org.'' = Proxied
   \<and> spec_classify [''blocked.org''] (TrimSuffix ''notblocked.org.'' ''.'') = Passthrough
   \<and> classify (example_config [] [''blocked.org'']) ''NEWS.BLOCKED.ORG.'' = Passthrough
   \<and> spec_classify [''blocked.org''] (TrimSuffix ''NEWS.BLOCKED.ORG.'' ''.'') = Proxied"
  by (simp add: classify_def isProxyDomain_def example_config_def HasSuffix_def TrimSuffix_def
      spec_classify_def spec_matches_def ascii_lower_def char_of_def bit_Suc_0_iff)

subsection \<open>How the handlers change the reply and the world\<close>

lemma attempt_Cons_Suc: "attempt e q (ns # rest) n0 (Suc i) = attempt e q rest (Suc n0) i"
  by (simp add: attempt_def)

lemma log_Printf_fields [simp]:
  "exchanges (log_Printf ev w) = exchanges w"
  "worker_calls (log_Printf ev w) = worker_calls w"
  "written (log_Printf ev w) = written w"
  "ticks (log_Printf ev w) = ticks w"
  "logs (log_Printf ev w) = logs w @ [ev]"
  by (simp_all add: log_Printf_def)

lemma forwardToUpstream_loop_all_failed:
  "\<forall>i < length nss. upstream_failed (attempt e q nss (length (exchanges w)) i) \<Longrightarrow>
   forwardToUpstream_loop e q nss m w = (m', w') \<Longrightarrow>
   m' = m \<and> contacted w' = contacted w @ map (\<lambda>ns. ns @ '':53'') nss
     \<and> written w' = written w \<and> worker_calls w' = worker_calls w \<and> ticks w' = ticks w"
proof (induction nss arbitrary: w)
  case Nil
  then show ?case by simp
next
  case (Cons ns rest)
  let ?n = "length (exchanges w)"
  let ?msg = "SetQuestion new_Msg (RandId e ?n) (Name q) (Qtype q)"
  let ?w1 = "w\<lparr>exchanges := exchanges w @ [(?msg, ns @ '':53'')]\<rparr>"
  have head: "upstream_failed (Exchange e ?n ?msg (ns @ '':53''))"
    using Cons.prems(1) by (auto simp: attempt_def dest: spec [of _ 0])
  have tail: "\<forall>i < length rest. upstream_failed (attempt e q rest (Suc ?n) i)"
  proof (intro allI impI)
    fix i assume "i < length rest"
    then have "upstream_failed (attempt e q (ns # rest) ?n (Suc i))"
      using Cons.prems(1) by simp
    then show "upstream_failed (attempt e q rest (Suc ?n) i)"
      by (simp add: attempt_Cons_Suc)
  qed
  show ?case
  proof (cases "Exchange e ?n ?msg (ns @ '':53'')")
    case (ExchangeErr err)
    then have "forwardToUpstream_loop e q rest m (log_Printf (LogUpstreamError ns err) ?w1) = (m', w')"
      using Cons.prems(2) by (simp add: Let_def)
    from Cons.IH [OF _ this] tail show ?thesis by (simp add: contacted_def)
  next
    case (ExchangeOk ro)
    then have "forwardToUpstream_loop e q rest m ?w1 = (m', w')"
      using Cons.prems(2) head
      by (auto simp: Let_def upstream_failed_def split: option.splits)
    from Cons.IH [OF _ this] tail show ?thesis by (simp add: contacted_def)
  qed
qed

lemma forwardToUpstream_loop_first_answer:
  "K < length nss \<Longrightarrow>
   \<forall>i < K. upstream_failed (attempt e q nss (length (exchanges w)) i) \<Longrightarrow>
   attempt e q nss (length (exchanges w)) K = ExchangeOk (Some r) \<Longrightarrow>
   Answer r \<noteq> [] \<Longrightarrow>
   forwardToUpstream_loop e q nss m w = (m', w') \<Longrightarrow>
   m' = m\<lparr>Answer := Answer m @ Answer r\<rparr>
     \<and> contacted w' = contacted w @ map (\<lambda>ns. ns @ '':53'') (take (Suc K) nss)
     \<and> written w' = written w \<and> worker_calls w' = worker_calls w \<and> ticks w' = ticks w"
proof (induction nss arbitrary: w K)
  case Nil
  then show ?case by simp
next
  case (Cons ns rest)
  let ?n = "length (exchanges w)"
  let ?msg = "SetQuestion new_Msg (RandId e ?n) (Name q) (Qtype q)"
  let ?w1 = "w\<lparr>exchanges := exchanges w @ [(?msg, ns @ '':53'')]\<rparr>"
  show ?case
  proof (cases K)
    case 0
    then have "Exchange e ?n ?msg (ns @ '':53'') = ExchangeOk (Some r)"
      using Cons.prems(3) by (simp add: attempt_def)
    then show ?thesis
      using Cons.prems(4,5) 0 by (auto simp: Let_def contacted_def)
  next
    case (Suc K')
    have head: "upstream_failed (Exchange e ?n ?msg (ns @ '':53''))"
      using Cons.prems(2) Suc by (auto simp: attempt_def dest: spec [of _ 0])
    have tail: "\<forall>i < K'. upstream_failed (attempt e q rest (Suc ?n) i)"
    proof (intro allI impI)
      fix i assume "i < K'"
      then have "upstream_failed (attempt e q (ns # rest) ?n (Suc i))"
        using Cons.prems(2) Suc by simp
      then show "upstream_failed (attempt e q rest (Suc ?n) i)"
        by (simp add: attempt_Cons_Suc)
    qed
    have succ: "attempt e q rest (Suc ?n) K' = ExchangeOk (Some r)"
      using Cons.prems(3) Suc by (simp add: attempt_Cons_Suc)
    have len: "K' < length rest" using Cons.prems(1) Suc by simp
    show ?thesis
    proof (cases "Exchange e ?n ?msg (ns @ '':53'')")
      case (ExchangeErr err)
      then have run: "forwardToUpstream_loop e q rest m (log_Printf (LogUpstreamError ns err) ?w1) = (m', w')"
        using Cons.prems(5) by (simp add: Let_def)
      have "m' = m\<lparr>Answer := Answer m @ Answer r\<rparr>
        \<and> contacted w' = contacted (log_Printf (LogUpstreamError ns err) ?w1) @ map (\<lambda>ns. ns @ '':53'') (take (Suc K') rest)
        \<and> written w' = written (log_Printf (LogUpstreamError ns err) ?w1)
        \<and> worker_calls w' = worker_calls (log_Printf (LogUpstreamError ns err) ?w1)
        \<and> ticks w' = ticks (log_Printf (LogUpstreamError ns err) ?w1)"
        by (rule Cons.IH [OF len _ _ Cons.prems(4) run]) (use tail succ in simp_all)
      then show ?thesis using Suc by (simp add: contacted_def)
    next
      case (ExchangeOk ro)
      then have run: "forwardToUpstream_loop e q rest m ?w1 = (m', w')"
        using Cons.prems(5) head
        by (auto simp: Let_def upstream_failed_def split: option.splits)
      have "m' = m\<lparr>Answer := Answer m @ Answer r\<rparr>
        \<and> contacted w' = contacted ?w1 @ map (\<lambda>ns. ns @ '':53'') (take (Suc K') rest)
        \<and> written w' = written ?w1 \<and> worker_calls w' = worker_calls ?w1 \<and> ticks w' = ticks ?w1"
        by (rule Cons.IH [OF len _ _ Cons.prems(4) run]) (use tail succ in simp_all)
      then show ?thesis using Suc by (simp add: contacted_def)
    qed
  qed
qed

lemma handleProxiedDomain_fields:
  "handleProxiedDomain e m q w = (m', w') \<Longrightarrow>
   exchanges w' = exchanges w \<and> written w' = written w \<and> worker_calls w' = worker_calls w
     \<and> ticks w' = ticks w"
  by (auto simp: handleProxiedDomain_def Let_def split: option.splits)

lemma forwardToUpstream_loop_fields:
  "forwardToUpstream_loop e q nss m w = (m', w') \<Longrightarrow>
   written w' = written w \<and> worker_calls w' = worker_calls w \<and> ticks w' = ticks w"
proof (induction nss arbitrary: w)
  case Nil
  then show ?case by simp
next
  case (Cons ns rest)
  show ?case
  proof (cases "Exchange e (length (exchanges w))
      (SetQuestion new_Msg (RandId e (length (exchanges w))) (Name q) (Qtype q)) (ns @ '':53'')")
    case (ExchangeErr err)
    with Cons.prems have "forwardToUpstream_loop e q rest m
        (log_Printf (LogUpstreamError ns err)
          (w\<lparr>exchanges := exchanges w @
             [(SetQuestion new_Msg (RandId e (length (exchanges w))) (Name q) (Qtype q),
               ns @ '':53'')]\<rparr>)) = (m', w')"
      by (simp add: Let_def)
    from Cons.IH [OF this] show ?thesis by simp
  next
    case (ExchangeOk ro)
    show ?thesis
    proof (cases "\<exists>r. ro = Some r \<and> Answer r \<noteq> []")
      case True
      with ExchangeOk Cons.prems show ?thesis by (auto simp: Let_def)
    next
      case False
      with ExchangeOk Cons.prems have "forwardToUpstream_loop e q rest m
          (w\<lparr>exchanges := exchanges w @
             [(SetQuestion new_Msg (RandId e (length (exchanges w))) (Name q) (Qtype q),
               ns @ '':53'')]\<rparr>) = (m', w')"
        by (auto simp: Let_def split: option.splits)
      from Cons.IH [OF this] show ?thesis by simp
    qed
  qed
qed

lemma handleQuestion_fields:
  "handleQuestion e config q m w = (m', w') \<Longrightarrow>
   written w' = written w \<and> worker_calls w' = worker_calls w \<and> ticks w' = ticks w"
  by (auto simp: handleQuestion_def forwardToUpstream_def Let_def split: if_splits
      dest!: handleProxiedDomain_fields forwardToUpstream_loop_fields)

lemma handleQuestions_fields:
  "handleQuestions e config qs m w = (m', w') \<Longrightarrow>
   written w' = written w \<and> worker_calls w' = worker_calls w \<and> ticks w' = ticks w"
proof (induction qs arbitrary: m w)
  case Nil
  then show ?case by simp
next
  case (Cons q qs)
  obtain m1 w1 where step: "handleQuestion e config q m w = (m1, w1)"
    by (cases "handleQuestion e config q m w")
  with Cons.prems have "handleQuestions e config qs m1 w1 = (m', w')" by simp
  from Cons.IH [OF this] handleQuestion_fields [OF step] show ?case by simp
qed

lemma SetReply_fields:
  "Answer (SetReply new_Msg r) = []"
  "Rcode (SetReply new_Msg r) = RcodeSuccess"
  "Id (SetReply new_Msg r) = Id r"
  "Response (SetReply new_Msg r)"
  "Questions (SetReply new_Msg r) = take 1 (Questions r)"
  by (simp_all add: SetReply_def new_Msg_def Let_def split: list.splits)

subsection \<open>Upstream resolver\<close>

text \<open>
  C3. When the first \<open>K\<close> nameservers of the configured list fail (an error, no
  message, or no answer records) and nameserver \<open>K + 1\<close> returns a message with at
  least one answer record, \<^verbatim>\<open>forwardToUpstream\<close> appends exactly that message's
  answer records to the reply and nothing from any other upstream; the addresses it
  contacts are the first \<open>K + 1\<close> entries of the list, each entry once and in order, so
  none after entry \<open>K + 1\<close>; and when the list names no address twice, no address is
  contacted twice.
\<close>

theorem forwardToUpstream_first_answer:
  assumes "K < length (Nameservers config)"
    and "\<forall>i < K. upstream_failed (attempt e q (Nameservers config) (length (exchanges w)) i)"
    and "attempt e q (Nameservers config) (length (exchanges w)) K = ExchangeOk (Some r)"
    and "Answer r \<noteq> []"
  shows "fst (forwardToUpstream e config m q w) = m\<lparr>Answer := Answer m @ Answer r\<rparr>
    \<and> contacted (snd (forwardToUpstream e config m q w)) =
        contacted w @ map (\<lambda>ns. ns @ '':53'') (take (Suc K) (Nameservers config))
    \<and> length (contacted (snd (forwardToUpstream e config m q w))) = length (contacted w) + Suc K
    \<and> (distinct (Nameservers config) \<longrightarrow>
        distinct (drop (length (contacted w))
          (contacted (snd (forwardToUpstream e config m q w)))))"
proof -
  obtain m' w' where run: "forwardToUpstream_loop e q (Nameservers config) m w = (m', w')"
    by (cases "forwardToUpstream_loop e q (Nameservers config) m w")
  from forwardToUpstream_loop_first_answer [OF assms run]
  have res: "m' = m\<lparr>Answer := Answer m @ Answer r\<rparr>"
    "contacted w' = contacted w @ map (\<lambda>ns. ns @ '':53'') (take (Suc K) (Nameservers config))"
    by simp_all
  have len: "length (take (Suc K) (Nameservers config)) = Suc K"
    using assms(1) by simp
  have inj: "inj_on (\<lambda>ns. ns @ '':53'') A" for A :: "string set"
    by (simp add: inj_on_def)
  have dist: "distinct (Nameservers config) \<longrightarrow>
      distinct (map (\<lambda>ns. ns @ '':53'') (take (Suc K) (Nameservers config)))"
    by (simp add: distinct_map inj)
  show ?thesis
    using res len dist run by (simp add: forwardToUpstream_def)
qed

theorem forwardToUpstream_first_answer_witness:
  "fst (forwardToUpstream (example_env example_exchanges no_worker) four_nameservers new_Msg
         example_question empty_world)
     = new_Msg\<lparr>Answer := [''example.com. 300 IN A 93.184.216.34'']\<rparr>
   \<and> contacted (snd (forwardToUpstream (example_env example_exchanges no_worker)
         four_nameservers new_Msg example_question empty_world))
     = [''10.0.0.1:53'', ''10.0.0.2:53'', ''10.0.0.3:53'']
   \<and> distinct (drop (length (contacted empty_world))
        (contacted (snd (forwardToUpstream (example_env example_exchanges no_worker)
           four_nameservers new_Msg example_question empty_world))))"
proof -
  let ?e = "example_env example_exchanges no_worker"
  have h1: "Suc (Suc 0) < length (Nameservers four_nameservers)"
    by (simp add: four_nameservers_def example_config_def)
  have h2: "\<forall>i < Suc (Suc 0). upstream_failed
      (attempt ?e example_question (Nameservers four_nameservers) (length (exchanges empty_world)) i)"
    by (simp add: less_Suc_eq attempt_def example_env_def example_exchanges_def
        upstream_failed_def new_Msg_def empty_world_def)
  have h3: "attempt ?e example_question (Nameservers four_nameservers)
      (length (exchanges empty_world)) (Suc (Suc 0)) = ExchangeOk (Some example_answer)"
    by (simp add: attempt_def example_env_def example_exchanges_def empty_world_def)
  have h4: "Answer example_answer \<noteq> []"
    by (simp add: example_answer_def)
  show ?thesis
    using forwardToUpstream_first_answer [OF h1 h2 h3 h4, of new_Msg]
    by (simp add: four_nameservers_def example_config_def example_answer_def
        new_Msg_def contacted_def empty_world_def)
qed

text \<open>
  C4. For a message whose first question has type A and is routed Passthrough, when
  every configured nameserver fails, \<^verbatim>\<open>forwardToUpstream\<close> leaves the reply as it was
  (no answer), and the one message \<^verbatim>\<open>handleDNSRequest\<close> writes is the reply made by
  \<^verbatim>\<open>SetReply\<close>: it has no answer records and the success response code, not the
  server-failure code.
\<close>

theorem passthrough_all_upstreams_failed:
  assumes first: "Questions r = q # qs"
    and typeA: "Qtype q = TypeA"
    and passthrough: "classify config (Name q) = Passthrough"
    and failed: "\<forall>i < length (Nameservers config).
           upstream_failed (attempt e q (Nameservers config) (length (exchanges w)) i)"
  shows "fst (forwardToUpstream e config m q w) = m
    \<and> written (handleDNSRequest e config r w) = written w @ [(SetReply new_Msg r)\<lparr>Compress := False\<rparr>]
    \<and> Answer ((SetReply new_Msg r)\<lparr>Compress := False\<rparr>) = []
    \<and> Rcode ((SetReply new_Msg r)\<lparr>Compress := False\<rparr>) = RcodeSuccess
    \<and> Rcode ((SetReply new_Msg r)\<lparr>Compress := False\<rparr>) \<noteq> RcodeServerFailure"
proof -
  let ?m = "(SetReply new_Msg r)\<lparr>Compress := False\<rparr>"
  let ?w1 = "log_Printf (LogQueryFor (Name q)) w"
  have noanswer: "fst (forwardToUpstream_loop e q (Nameservers config) m0 w0) = m0
      \<and> written (snd (forwardToUpstream_loop e q (Nameservers config) m0 w0)) = written w0"
    if "exchanges w0 = exchanges w" for m0 :: "'a Msg" and w0
  proof -
    obtain m' w' where run: "forwardToUpstream_loop e q (Nameservers config) m0 w0 = (m', w')"
      by (cases "forwardToUpstream_loop e q (Nameservers config) m0 w0")
    have "\<forall>i < length (Nameservers config).
        upstream_failed (attempt e q (Nameservers config) (length (exchanges w0)) i)"
      using failed that by simp
    from forwardToUpstream_loop_all_failed [OF this run] run show ?thesis by simp
  qed
  have qs: "Questions ?m = [q]"
    using first by (simp add: SetReply_fields)
  have notproxy: "\<not> isProxyDomain config (TrimSuffix (Name q) ''.'')"
    using passthrough by (simp add: classify_def split: if_splits)
  have step: "handleQuestion e config q ?m w = forwardToUpstream_loop e q (Nameservers config) ?m ?w1"
    using typeA notproxy by (simp add: handleQuestion_def forwardToUpstream_def Let_def)
  have one: "fst (handleQuestion e config q ?m w) = ?m"
    "written (snd (handleQuestion e config q ?m w)) = written w"
    using noanswer [of ?w1 ?m] by (simp_all add: step)
  obtain m1 w1 where hq: "handleQuestion e config q ?m w = (m1, w1)"
    by (cases "handleQuestion e config q ?m w")
  with one have same: "m1 = ?m" "written w1 = written w" by simp_all
  have "written (handleDNSRequest e config r w) = written w @ [?m]"
  proof (cases "Opcode r = OpcodeQuery")
    case True
    with hq same qs show ?thesis by (simp add: handleDNSRequest_def Let_def)
  next
    case False
    then show ?thesis by (simp add: handleDNSRequest_def Let_def)
  qed
  moreover have "fst (forwardToUpstream e config m q w) = m"
    using noanswer [of w m] by (simp add: forwardToUpstream_def)
  ultimately show ?thesis
    by (simp add: SetReply_fields RcodeSuccess_def RcodeServerFailure_def)
qed

theorem passthrough_all_upstreams_failed_witness:
  "written (handleDNSRequest (example_env failing_exchanges no_worker)
      (example_config [''8.8.8.8'', ''1.1.1.1''] [''blocked.org''])
      (example_query ''example.com.'' TypeA) empty_world)
     = [(SetReply new_Msg (example_query ''example.com.'' TypeA))\<lparr>Compress := False\<rparr>]
   \<and> Answer ((SetReply new_Msg (example_query ''example.com.'' TypeA))\<lparr>Compress := False\<rparr>
        :: string Msg) = []
   \<and> Rcode ((SetReply new_Msg (example_query ''example.com.'' TypeA))\<lparr>Compress := False\<rparr>
        :: string Msg) = RcodeSuccess"
proof -
  let ?e = "example_env failing_exchanges no_worker"
  let ?c = "example_config [''8.8.8.8'', ''1.1.1.1''] [''blocked.org'']"
  let ?r = "example_query ''example.com.'' TypeA :: string Msg"
  let ?q = "\<lparr>Name = ''example.com.'', Qtype = TypeA, Qclass = ClassINET\<rparr>"
  have h2: "Questions ?r = ?q # []"
    by (simp add: example_query_def)
  have h3: "Qtype ?q = TypeA" by simp
  have h4: "classify ?c (Name ?q) = Passthrough"
    by (simp add: classify_def isProxyDomain_def example_config_def TrimSuffix_def HasSuffix_def)
  have h5: "\<forall>i < length (Nameservers ?c).
      upstream_failed (attempt ?e ?q (Nameservers ?c) (length (exchanges empty_world)) i)"
    by (simp add: example_config_def less_Suc_eq attempt_def example_env_def
        failing_exchanges_def upstream_failed_def new_Msg_def empty_world_def)
  show ?thesis
    using passthrough_all_upstreams_failed [OF h2 h3 h4 h5]
    by (simp add: empty_world_def)
qed

subsection \<open>Query router\<close>

text \<open>
  C10. \<^verbatim>\<open>handleDNSRequest\<close> looks at the first question of a message with opcode
  Query and at no other question. When that question has type A, the handler classifies
  its name and hands it to \<^verbatim>\<open>handleProxiedDomain\<close> or to \<^verbatim>\<open>forwardToUpstream\<close>, and
  writes the reply those return. When it has another type, when the message has no
  question, or when the opcode is not Query, nothing is routed: the world changes in
  nothing but the one reply written, which is the bare reply and has no answer records.
  In every case exactly one reply is written.
\<close>

theorem handleDNSRequest_routes_only_A:
  "(Opcode r = OpcodeQuery \<and> Questions r = q # qs \<and> Qtype q = TypeA \<longrightarrow>
      handleDNSRequest e config r w =
        (case (case classify config (Name q) of
                 Proxied \<Rightarrow>
                   handleProxiedDomain e ((SetReply new_Msg r)\<lparr>Compress := False\<rparr>) q
                     (log_Printf (LogQueryFor (Name q)) w)
               | Passthrough \<Rightarrow>
                   forwardToUpstream e config ((SetReply new_Msg r)\<lparr>Compress := False\<rparr>) q
                     (log_Printf (LogQueryFor (Name q)) w))
         of (m1, w1) \<Rightarrow> w1\<lparr>written := written w1 @ [m1]\<rparr>))
   \<and> (Opcode r = OpcodeQuery \<and> Questions r = q # qs \<and> Qtype q \<noteq> TypeA \<longrightarrow>
      handleDNSRequest e config r w =
        w\<lparr>written := written w @ [(SetReply new_Msg r)\<lparr>Compress := False\<rparr>]\<rparr>)
   \<and> (Opcode r \<noteq> OpcodeQuery \<or> Questions r = [] \<longrightarrow>
      handleDNSRequest e config r w =
        w\<lparr>written := written w @ [(SetReply new_Msg r)\<lparr>Compress := False\<rparr>]\<rparr>)
   \<and> Answer ((SetReply new_Msg r)\<lparr>Compress := False\<rparr>) = []
   \<and> (\<exists>m. written (handleDNSRequest e config r w) = written w @ [m])"
proof -
  let ?m = "(SetReply new_Msg r)\<lparr>Compress := False\<rparr>"
  have routed: "handleDNSRequest e config r w =
        (case (case classify config (Name q) of
                 Proxied \<Rightarrow> handleProxiedDomain e ?m q (log_Printf (LogQueryFor (Name q)) w)
               | Passthrough \<Rightarrow>
                   forwardToUpstream e config ?m q (log_Printf (LogQueryFor (Name q)) w))
         of (m1, w1) \<Rightarrow> w1\<lparr>written := written w1 @ [m1]\<rparr>)"
    if "Opcode r = OpcodeQuery" "Questions r = q # qs" "Qtype q = TypeA"
  proof -
    have qs: "Questions ?m = [q]" using that(2) by (simp add: SetReply_fields)
    show ?thesis
      using that(1,3)
      by (simp add: handleDNSRequest_def qs handleQuestion_def classify_def Let_def
          split: prod.splits)
  qed
  have skipped: "handleDNSRequest e config r w = w\<lparr>written := written w @ [?m]\<rparr>"
    if "Opcode r = OpcodeQuery" "Questions r = q # qs" "Qtype q \<noteq> TypeA"
  proof -
    have qs: "Questions ?m = [q]" using that(2) by (simp add: SetReply_fields)
    show ?thesis
      using that(1,3) by (simp add: handleDNSRequest_def qs handleQuestion_def Let_def)
  qed
  have bare: "handleDNSRequest e config r w = w\<lparr>written := written w @ [?m]\<rparr>"
    if "Opcode r \<noteq> OpcodeQuery \<or> Questions r = []"
  proof (cases "Opcode r = OpcodeQuery")
    case True
    with that have "Questions ?m = []" by (simp add: SetReply_fields)
    with True show ?thesis by (simp add: handleDNSRequest_def Let_def)
  next
    case False
    then show ?thesis by (simp add: handleDNSRequest_def Let_def)
  qed
  have empty: "Answer ?m = []" by (simp add: SetReply_fields)
  have one: "\<exists>m. written (handleDNSRequest e config r w) = written w @ [m]"
  proof (cases "Opcode r = OpcodeQuery")
    case True
    obtain m1 w1 where run: "handleQuestions e config (Questions ?m) ?m w = (m1, w1)"
      by (cases "handleQuestions e config (Questions ?m) ?m w")
    from handleQuestions_fields [OF run] have "written w1 = written w" by simp
    with True run show ?thesis by (simp add: handleDNSRequest_def Let_def)
  next
    case False
    then show ?thesis by (simp add: handleDNSRequest_def Let_def)
  qed
  from routed skipped bare empty one show ?thesis by blast
qed

theorem handleDNSRequest_routes_only_A_witness:
  "map Answer (written (handleDNSRequest (example_env example_exchanges no_worker)
      (example_config [''8.8.8.8'', ''1.1.1.1'', ''9.9.9.9''] [''blocked.org''])
      (example_query ''news.blocked.org.'' TypeA) empty_world))
     = [[''news.blocked.org. A 192.168.1.1'']]
   \<and> map Answer (written (handleDNSRequest (example_env example_exchanges no_worker)
      (example_config [''8.8.8.8'', ''1.1.1.1'', ''9.9.9.9''] [''blocked.org''])
      (example_query ''example.com.'' TypeA) empty_world))
     = [[''example.com. 300 IN A 93.184.216.34'']]
   \<and> contacted (handleDNSRequest (example_env example_exchanges no_worker)
      (example_config [''8.8.8.8'', ''1.1.1.1'', ''9.9.9.9''] [''blocked.org''])
      (example_query ''example.com.'' TypeA) empty_world)
     = [''8.8.8.8:53'', ''1.1.1.1:53'', ''9.9.9.9:53'']
   \<and> handleDNSRequest (example_env example_exchanges no_worker)
      (example_config [''8.8.8.8'', ''1.1.1.1'', ''9.9.9.9''] [''blocked.org''])
      (example_query ''news.blocked.org.'' 28) empty_world
     = empty_world\<lparr>written :=
         [(SetReply new_Msg (example_query ''news.blocked.org.'' 28))\<lparr>Compress := False\<rparr>]\<rparr>"
proof -
  let ?e = "example_env example_exchanges no_worker"
  let ?c = "example_config [''8.8.8.8'', ''1.1.1.1'', ''9.9.9.9''] [''blocked.org'']"
  let ?w = "empty_world :: string world"
  let ?qp = "\<lparr>Name = ''news.blocked.org.'', Qtype = TypeA, Qclass = ClassINET\<rparr>"
  let ?qu = "\<lparr>Name = ''example.com.'', Qtype = TypeA, Qclass = ClassINET\<rparr>"
  let ?q6 = "\<lparr>Name = ''news.blocked.org.'', Qtype = 28, Qclass = ClassINET\<rparr>"
  have hp: "Opcode (example_query ''news.blocked.org.'' TypeA :: string Msg) = OpcodeQuery
      \<and> Questions (example_query ''news.blocked.org.'' TypeA :: string Msg) = ?qp # []
      \<and> Qtype ?qp = TypeA"
    by (simp add: example_query_def new_Msg_def OpcodeQuery_def)
  have hu: "Opcode (example_query ''example.com.'' TypeA :: string Msg) = OpcodeQuery
      \<and> Questions (example_query ''example.com.'' TypeA :: string Msg) = ?qu # []
      \<and> Qtype ?qu = TypeA"
    by (simp add: example_query_def new_Msg_def OpcodeQuery_def)
  have h6: "Opcode (example_query ''news.blocked.org.'' 28 :: string Msg) = OpcodeQuery
      \<and> Questions (example_query ''news.blocked.org.'' 28 :: string Msg) = ?q6 # []
      \<and> Qtype ?q6 \<noteq> TypeA"
    by (simp add: example_query_def new_Msg_def OpcodeQuery_def TypeA_def)
  have p: "handleDNSRequest ?e ?c (example_query ''news.blocked.org.'' TypeA) ?w =
      (case (case classify ?c (Name ?qp) of
               Proxied \<Rightarrow>
                 handleProxiedDomain ?e
                   ((SetReply new_Msg (example_query ''news.blocked.org.'' TypeA))\<lparr>Compress := False\<rparr>)
                   ?qp (log_Printf (LogQueryFor (Name ?qp)) ?w)
             | Passthrough \<Rightarrow>
                 forwardToUpstream ?e ?c
                   ((SetReply new_Msg (example_query ''news.blocked.org.'' TypeA))\<lparr>Compress := False\<rparr>)
                   ?qp (log_Printf (LogQueryFor (Name ?qp)) ?w))
       of (m1, w1) \<Rightarrow> w1\<lparr>written := written w1 @ [m1]\<rparr>)"
    using hp handleDNSRequest_routes_only_A [of "example_query ''news.blocked.org.'' TypeA"
        ?qp "[]" ?e ?c ?w]
    by blast
  have u: "handleDNSRequest ?e ?c (example_query ''example.com.'' TypeA) ?w =
      (case (case classify ?c (Name ?qu) of
               Proxied \<Rightarrow>
                 handleProxiedDomain ?e
                   ((SetReply new_Msg (example_query ''example.com.'' TypeA))\<lparr>Compress := False\<rparr>)
                   ?qu (log_Printf (LogQueryFor (Name ?qu)) ?w)
             | Passthrough \<Rightarrow>
                 forwardToUpstream ?e ?c
                   ((SetReply new_Msg (example_query ''example.com.'' TypeA))\<lparr>Compress := False\<rparr>)
                   ?qu (log_Printf (LogQueryFor (Name ?qu)) ?w))
       of (m1, w1) \<Rightarrow> w1\<lparr>written := written w1 @ [m1]\<rparr>)"
    using hu handleDNSRequest_routes_only_A [of "example_query ''example.com.'' TypeA"
        ?qu "[]" ?e ?c ?w]
    by blast
  have s: "handleDNSRequest ?e ?c (example_query ''news.blocked.org.'' 28) ?w =
      ?w\<lparr>written := written ?w @
        [(SetReply new_Msg (example_query ''news.blocked.org.'' 28))\<lparr>Compress := False\<rparr>]\<rparr>"
    using h6 handleDNSRequest_routes_only_A [of "example_query ''news.blocked.org.'' 28"
        ?q6 "[]" ?e ?c ?w]
    by blast
  have cp: "classify ?c (Name ?qp) = Proxied"
    by (simp add: classify_def isProxyDomain_def example_config_def TrimSuffix_def HasSuffix_def)
  have cu: "classify ?c (Name ?qu) = Passthrough"
    by (simp add: classify_def isProxyDomain_def example_config_def TrimSuffix_def HasSuffix_def)
  have a: "map Answer (written (handleDNSRequest ?e ?c (example_query ''news.blocked.org.'' TypeA) ?w))
      = [[''news.blocked.org. A 192.168.1.1'']]"
    unfolding p cp
    by (simp add: handleProxiedDomain_def example_env_def SetReply_def new_Msg_def
        example_query_def empty_world_def Let_def)
  have b: "map Answer (written (handleDNSRequest ?e ?c (example_query ''example.com.'' TypeA) ?w))
      = [[''example.com. 300 IN A 93.184.216.34'']]"
    "contacted (handleDNSRequest ?e ?c (example_query ''example.com.'' TypeA) ?w)
      = [''8.8.8.8:53'', ''1.1.1.1:53'', ''9.9.9.9:53'']"
    unfolding u cu
    by (simp_all add: forwardToUpstream_def example_config_def example_env_def
        example_exchanges_def example_answer_def SetReply_def SetQuestion_def new_Msg_def
        example_query_def empty_world_def Let_def contacted_def)
  from a b s show ?thesis by (simp add: empty_world_def)
qed

subsection \<open>Worker invocation client\<close>

lemma fetchFromWorker_status:
  assumes "Do e (length (worker_calls w)) workerURL t = DoOk resp"
    and "Body resp = Inr body"
    and "StatusCode resp \<noteq> StatusOK"
  shows "fst (fetchFromWorker e t w) = Inl (ErrStatus (StatusCode resp))"
    and "logs (snd (fetchFromWorker e t w)) =
      logs w @ [LogFetching t, LogWorkerStatus (Status resp), LogNon200 (StatusCode resp) body]
        @ (if StatusCode resp = 403 \<and> Contains body ''Cloudflare'' then [LogCloudflare] else [])"
    and "worker_calls (snd (fetchFromWorker e t w)) = worker_calls w @ [(workerURL, t)]"
  using assms by (simp_all add: fetchFromWorker_def Let_def)

lemma fetchFromWorker_calls:
  "worker_calls (snd (fetchFromWorker e t w)) =
     worker_calls w @
       (case Do e (length (worker_calls w)) workerURL t of
          NewRequestErr err \<Rightarrow> []
        | DoErr err \<Rightarrow> [(workerURL, t)]
        | DoOk resp \<Rightarrow> [(workerURL, t)])"
  by (simp add: fetchFromWorker_def Let_def split: http_outcome.splits sum.splits)

text \<open>
  C2 (as the code has it). For a worker response with status 403 whose body could be
  read, \<^verbatim>\<open>fetchFromWorker\<close> returns the status error for 403 whether or not the body
  contains the marker \<open>Cloudflare\<close>; the marker only adds one log line after the line
  that reports the status and the body.
\<close>

theorem fetchFromWorker_403_same_error:
  assumes "Do e (length (worker_calls w)) workerURL t = DoOk resp"
    and "StatusCode resp = 403"
    and "Body resp = Inr body"
  shows "fst (fetchFromWorker e t w) = Inl (ErrStatus 403)
    \<and> logs (snd (fetchFromWorker e t w)) =
        logs w @ [LogFetching t, LogWorkerStatus (Status resp), LogNon200 403 body]
          @ (if Contains body ''Cloudflare'' then [LogCloudflare] else [])"
proof -
  have "StatusCode resp \<noteq> StatusOK" using assms(2) by (simp add: StatusOK_def)
  from fetchFromWorker_status(1,2) [OF assms(1) assms(3) this] assms(2)
  show ?thesis by simp
qed

theorem fetchFromWorker_403_same_error_witness:
  "fst (fetchFromWorker (example_env failing_exchanges three_endpoints) ''https://news.blocked.org''
      empty_world) = Inl (ErrStatus 403)
   \<and> logs (snd (fetchFromWorker (example_env failing_exchanges three_endpoints)
      ''https://news.blocked.org'' empty_world)) =
       [LogFetching ''https://news.blocked.org'', LogWorkerStatus ''HTTP status'',
        LogNon200 403 ''<title>Attention Required! | Cloudflare</title>'', LogCloudflare]"
proof -
  let ?resp = "\<lparr>Status = ''HTTP status'', StatusCode = 403,
      Body = Inr ''<title>Attention Required! | Cloudflare</title>''\<rparr>"
  have h1: "Do (example_env failing_exchanges three_endpoints) (length (worker_calls empty_world))
      workerURL ''https://news.blocked.org'' = DoOk ?resp"
    by (simp add: example_env_def three_endpoints_def response_def empty_world_def)
  have h2: "StatusCode ?resp = 403" by simp
  have h3: "Body ?resp = Inr ''<title>Attention Required! | Cloudflare</title>''" by simp
  have c: "Contains ''<title>Attention Required! | Cloudflare</title>'' ''Cloudflare''"
    by (simp add: HasPrefix_def)
  show ?thesis
    using fetchFromWorker_403_same_error [OF h1 h2 h3] c
    by (simp add: empty_world_def)
qed

text \<open>
  C2 as the specification states it fails: a 403 response whose body carries the marker
  and a 403 response whose body does not are answered with the same returned value, so
  the caller cannot tell a blocked worker from any other refusal.
\<close>

theorem fetchFromWorker_blocked_counterexample:
  "Contains ''<title>Attention Required! | Cloudflare</title>'' ''Cloudflare''
   \<and> \<not> Contains ''403 Forbidden'' ''Cloudflare''
   \<and> fst (fetchFromWorker
        (example_env failing_exchanges
           (\<lambda>n. response 403 ''<title>Attention Required! | Cloudflare</title>''))
        ''https://news.blocked.org'' empty_world)
     = fst (fetchFromWorker
        (example_env failing_exchanges (\<lambda>n. response 403 ''403 Forbidden''))
        ''https://news.blocked.org'' empty_world)"
  by (simp add: HasPrefix_def fetchFromWorker_def example_env_def response_def Let_def
      StatusOK_def empty_world_def log_Printf_def)

subsection \<open>Proxied queries\<close>

text \<open>
  C6 (as the code has it). \<^verbatim>\<open>handleProxiedDomain\<close> calls no worker and no upstream:
  it appends to the reply the one record parsed from the query name followed by
  \<open>A 192.168.1.1\<close>, or nothing when that text does not parse. \<^verbatim>\<open>SendProxyRequest\<close>
  makes at most one call, to the fixed worker URL, and none to any other endpoint.
\<close>

theorem handleProxiedDomain_placeholder:
  "worker_calls (snd (handleProxiedDomain e m q w)) = worker_calls w
   \<and> exchanges (snd (handleProxiedDomain e m q w)) = exchanges w
   \<and> fst (handleProxiedDomain e m q w) =
       m\<lparr>Answer := Answer m @
          (case NewRR e (Name q @ '' A 192.168.1.1'') of Some rr \<Rightarrow> [rr] | None \<Rightarrow> [])\<rparr>
   \<and> worker_calls (snd (SendProxyRequest e b t w)) =
       worker_calls w @
         (case Do e (length (worker_calls w)) workerURL t of
            NewRequestErr err \<Rightarrow> []
          | DoErr err \<Rightarrow> [(workerURL, t)]
          | DoOk resp \<Rightarrow> [(workerURL, t)])"
  by (simp add: handleProxiedDomain_def SendProxyRequest_def fetchFromWorker_calls Let_def
      split: option.splits)

theorem handleProxiedDomain_placeholder_witness:
  "worker_calls (snd (handleProxiedDomain (example_env failing_exchanges three_endpoints)
      new_Msg example_question empty_world)) = []
   \<and> fst (handleProxiedDomain (example_env failing_exchanges three_endpoints)
      new_Msg example_question empty_world) = new_Msg\<lparr>Answer := [''example.com. A 192.168.1.1'']\<rparr>
   \<and> worker_calls (snd (SendProxyRequest (example_env failing_exchanges three_endpoints)
      example_client ''https://example.com'' empty_world)) = [(workerURL, ''https://example.com'')]"
  using handleProxiedDomain_placeholder [of "example_env failing_exchanges three_endpoints"
      new_Msg example_question empty_world example_client "''https://example.com''"]
  by (simp add: example_env_def example_question_def empty_world_def new_Msg_def
      three_endpoints_def response_def)

text \<open>
  C6 as the specification states it fails. In a world where a first worker call would be
  answered with a challenge page, a second would fail in transport and a third would
  succeed, the query for \<open>news.blocked.org\<close> is routed Proxied and answered without a
  single worker call, with the fixed address and not with anything a worker returned.
\<close>

theorem handleProxiedDomain_counterexample:
  "classify (example_config [''8.8.8.8'', ''1.1.1.1''] [''blocked.org'']) ''news.blocked.org.''
     = Proxied
   \<and> worker_calls (handleDNSRequest (example_env failing_exchanges three_endpoints)
        (example_config [''8.8.8.8'', ''1.1.1.1''] [''blocked.org''])
        (example_query ''news.blocked.org.'' TypeA) empty_world) = []
   \<and> map Answer (written (handleDNSRequest (example_env failing_exchanges three_endpoints)
        (example_config [''8.8.8.8'', ''1.1.1.1''] [''blocked.org''])
        (example_query ''news.blocked.org.'' TypeA) empty_world))
     = [[''news.blocked.org. A 192.168.1.1'']]"
  by (simp add: classify_def isProxyDomain_def example_config_def TrimSuffix_def HasSuffix_def
      handleDNSRequest_def handleQuestion_def handleProxiedDomain_def SetReply_def new_Msg_def
      example_query_def example_env_def empty_world_def Let_def OpcodeQuery_def TypeA_def
      RcodeSuccess_def log_Printf_def)

subsection \<open>Session cache\<close>

lemma Authenticate_valid:
  assumes "Token (auth b) \<noteq> []" and "Now e (ticks w) < ExpiresAt (auth b)"
  shows "Authenticate e b w =
    (None, b,
     w\<lparr>ticks := ticks w + 2,
       logs := logs w @ [LogUsingExisting (ExpiresAt (auth b) - Now e (Suc (ticks w)))]\<rparr>)"
  using assms by (simp add: Authenticate_def time_Now_def log_Printf_def)

lemma Authenticate_issue:
  assumes "\<not> (Token (auth b) \<noteq> [] \<and> Now e (ticks w) < ExpiresAt (auth b))"
    and "k = (if Token (auth b) \<noteq> [] then Suc (ticks w) else ticks w)"
  shows "Authenticate e b w =
    (None,
     b\<lparr>auth := (auth b)\<lparr>Token := ''simulated_token_'' @ FormatRFC3339 e (Now e k),
                          ExpiresAt := Now e (Suc k) + 24 * Hour\<rparr>\<rparr>,
     w\<lparr>ticks := k + 3,
       logs := logs w @ [LogAuthenticating,
                         LogAuthSuccess (Now e (Suc k) + 24 * Hour - Now e (Suc (Suc k)))]\<rparr>)"
  using assms by (auto simp: Authenticate_def time_Now_def log_Printf_def Let_def)

lemma RefreshAuth_result:
  "RefreshAuth e b w =
    (None,
     b\<lparr>auth := (auth b)\<lparr>Token := ''simulated_token_'' @ FormatRFC3339 e (Now e (ticks w)),
                          ExpiresAt := Now e (Suc (ticks w)) + 24 * Hour\<rparr>\<rparr>,
     w\<lparr>ticks := ticks w + 3,
       logs := logs w @ [LogAuthenticating,
          LogAuthSuccess (Now e (Suc (ticks w)) + 24 * Hour - Now e (Suc (Suc (ticks w))))]\<rparr>)"
  unfolding RefreshAuth_def
  by (subst Authenticate_issue [where k = "ticks w"]) simp_all

lemma Authenticate_world:
  "\<exists>t l. snd (snd (Authenticate e b w)) = w\<lparr>ticks := t, logs := l\<rparr>"
proof (cases "Token (auth b) \<noteq> [] \<and> Now e (ticks w) < ExpiresAt (auth b)")
  case True
  then have "Authenticate e b w =
      (None, b, w\<lparr>ticks := ticks w + 2,
        logs := logs w @ [LogUsingExisting (ExpiresAt (auth b) - Now e (Suc (ticks w)))]\<rparr>)"
    by (intro Authenticate_valid) simp_all
  then have "snd (snd (Authenticate e b w)) =
      w\<lparr>ticks := ticks w + 2,
        logs := logs w @ [LogUsingExisting (ExpiresAt (auth b) - Now e (Suc (ticks w)))]\<rparr>"
    by (simp only: snd_conv)
  then show ?thesis by blast
next
  case False
  have "snd (snd (Authenticate e b w)) = snd (snd (Authenticate e b w))" ..
  then have "\<exists>t l. snd (snd (Authenticate e b w)) = w\<lparr>ticks := t, logs := l\<rparr>"
    by (subst Authenticate_issue [OF False refl], simp only: snd_conv) blast
  then show ?thesis .
qed

lemma Authenticate_frame:
  "exchanges (snd (snd (Authenticate e b w))) = exchanges w"
  "worker_calls (snd (snd (Authenticate e b w))) = worker_calls w"
  "auth_calls (snd (snd (Authenticate e b w))) = auth_calls w"
  "written (snd (snd (Authenticate e b w))) = written w"
proof -
  from Authenticate_world [of e b w]
  obtain t l where eq: "snd (snd (Authenticate e b w)) = w\<lparr>ticks := t, logs := l\<rparr>" by blast
  show "exchanges (snd (snd (Authenticate e b w))) = exchanges w"
    "worker_calls (snd (snd (Authenticate e b w))) = worker_calls w"
    "auth_calls (snd (snd (Authenticate e b w))) = auth_calls w"
    "written (snd (snd (Authenticate e b w))) = written w"
    by (simp_all add: eq)
qed

lemma Authenticate_branches:
  "(Token (auth b) \<noteq> [] \<and> Now e (ticks w) < ExpiresAt (auth b) \<longrightarrow>
      Authenticate e b w =
        (None, b,
         w\<lparr>ticks := ticks w + 2,
           logs := logs w @ [LogUsingExisting (ExpiresAt (auth b) - Now e (Suc (ticks w)))]\<rparr>))
   \<and> (\<not> (Token (auth b) \<noteq> [] \<and> Now e (ticks w) < ExpiresAt (auth b)) \<longrightarrow>
      (let k = (if Token (auth b) \<noteq> [] then Suc (ticks w) else ticks w)
       in Authenticate e b w =
           (None,
            b\<lparr>auth := (auth b)\<lparr>Token := ''simulated_token_'' @ FormatRFC3339 e (Now e k),
                                 ExpiresAt := Now e (Suc k) + 24 * Hour\<rparr>\<rparr>,
            w\<lparr>ticks := k + 3,
              logs := logs w @ [LogAuthenticating,
                LogAuthSuccess (Now e (Suc k) + 24 * Hour - Now e (Suc (Suc k)))]\<rparr>)))"
  unfolding Let_def using Authenticate_valid [of b e w] Authenticate_issue [OF _ refl, of b e w]
  by blast

lemma Authenticate_client:
  "fst (Authenticate e b w) = None
   \<and> fst (snd (Authenticate e b w)) =
       (if Token (auth b) \<noteq> [] \<and> Now e (ticks w) < ExpiresAt (auth b) then b
        else (let k = (if Token (auth b) \<noteq> [] then Suc (ticks w) else ticks w)
              in b\<lparr>auth := (auth b)\<lparr>Token := ''simulated_token_'' @ FormatRFC3339 e (Now e k),
                                      ExpiresAt := Now e (Suc k) + 24 * Hour\<rparr>\<rparr>))"
proof (cases "Token (auth b) \<noteq> [] \<and> Now e (ticks w) < ExpiresAt (auth b)")
  case True
  with Authenticate_valid [of b e w] show ?thesis by (simp del: append.simps)
next
  case False
  from Authenticate_issue [OF False refl]
  have "fst (Authenticate e b w) = None"
    "fst (snd (Authenticate e b w)) =
      b\<lparr>auth := (auth b)\<lparr>Token := ''simulated_token_'' @ FormatRFC3339 e
          (Now e (if Token (auth b) \<noteq> [] then Suc (ticks w) else ticks w)),
        ExpiresAt := Now e (Suc (if Token (auth b) \<noteq> [] then Suc (ticks w) else ticks w))
          + 24 * Hour\<rparr>\<rparr>"
    by (simp_all only: fst_conv snd_conv)
  with False show ?thesis unfolding Let_def by (simp only: if_False simp_thms)
qed

lemma Authenticate_network:
  "Authenticate (e\<lparr>Post := post, Do := do, Exchange := exchange\<rparr>) b w = Authenticate e b w"
  by (simp add: Authenticate_def time_Now_def Let_def)

lemma Authenticate_config:
  "Authenticate e (b\<lparr>client_Config := config\<rparr>) w =
     (case Authenticate e b w of (err, b', w') \<Rightarrow> (err, b'\<lparr>client_Config := config\<rparr>, w'))"
  by (simp add: Authenticate_def time_Now_def Let_def split: prod.splits)

lemma Authenticate_user:
  "Authenticate e (b\<lparr>auth := (auth b)\<lparr>Username := user, Password := pass\<rparr>\<rparr>) w =
     (case Authenticate e b w of
        (err, b', w') \<Rightarrow> (err, b'\<lparr>auth := (auth b')\<lparr>Username := user, Password := pass\<rparr>\<rparr>, w'))"
  by (simp add: Authenticate_def time_Now_def Let_def split: prod.splits)

lemma format_first_minute_0: "format_first_minute 0 = ''0001-01-01T00:00:00Z''"
  by (simp add: format_first_minute_def two_digits_def)

lemma format_first_minute_3s: "format_first_minute 3000000000 = ''0001-01-01T00:00:03Z''"
  by (simp add: format_first_minute_def two_digits_def)

lemma format_first_minute_3ms: "format_first_minute 3000000 = ''0001-01-01T00:00:00Z''"
  by (simp add: format_first_minute_def two_digits_def)

text \<open>
  C5 (as the code has it). When the cached token is not empty and its expiry is strictly
  after the clock reading, \<^verbatim>\<open>Authenticate\<close> returns nil and leaves the client, and with it
  the cached token and expiry, as they were. In every other case it returns nil after
  storing the token made of \<open>simulated_token_\<close> and the formatted clock reading,
  together with the expiry: the next clock reading plus 24 hours. In neither case is
  anything sent: no authentication request, no worker call, no DNS exchange; and what the
  authentication endpoint, the worker or the nameservers would answer does not change the
  result.
\<close>

theorem Authenticate_cached_or_local_token:
  "(Token (auth b) \<noteq> [] \<and> Now e (ticks w) < ExpiresAt (auth b) \<longrightarrow>
      Authenticate e b w =
        (None, b,
         w\<lparr>ticks := ticks w + 2,
           logs := logs w @ [LogUsingExisting (ExpiresAt (auth b) - Now e (Suc (ticks w)))]\<rparr>))
   \<and> (\<not> (Token (auth b) \<noteq> [] \<and> Now e (ticks w) < ExpiresAt (auth b)) \<longrightarrow>
      (let k = (if Token (auth b) \<noteq> [] then Suc (ticks w) else ticks w)
       in Authenticate e b w =
           (None,
            b\<lparr>auth := (auth b)\<lparr>Token := ''simulated_token_'' @ FormatRFC3339 e (Now e k),
                                 ExpiresAt := Now e (Suc k) + 24 * Hour\<rparr>\<rparr>,
            w\<lparr>ticks := k + 3,
              logs := logs w @ [LogAuthenticating,
                LogAuthSuccess (Now e (Suc k) + 24 * Hour - Now e (Suc (Suc k)))]\<rparr>)))
   \<and> auth_calls (snd (snd (Authenticate e b w))) = auth_calls w
   \<and> worker_calls (snd (snd (Authenticate e b w))) = worker_calls w
   \<and> exchanges (snd (snd (Authenticate e b w))) = exchanges w
   \<and> Authenticate (e\<lparr>Post := post, Do := do, Exchange := exchange\<rparr>) b w = Authenticate e b w"
  using Authenticate_branches [of b e w] Authenticate_frame [of e b w]
    Authenticate_network [where e = e and b = b and w = w]
  by blast

theorem Authenticate_cached_or_local_token_witness:
  "Authenticate example_clock cached_client empty_world =
     (None, cached_client,
      empty_world\<lparr>ticks := 2, logs := [LogUsingExisting (24 * Hour - 1000000000)]\<rparr>)
   \<and> Authenticate example_clock example_client empty_world =
     (None,
      example_client\<lparr>auth := zero_AuthConfig\<lparr>Token := ''simulated_token_0001-01-01T00:00:00Z'',
                                                ExpiresAt := 1000000000 + 24 * Hour\<rparr>\<rparr>,
      empty_world\<lparr>ticks := 3,
        logs := [LogAuthenticating, LogAuthSuccess (24 * Hour - 1000000000)]\<rparr>)
   \<and> auth_calls (snd (snd (Authenticate example_clock example_client empty_world))) = []"
proof -
  have valid: "Token (auth cached_client) \<noteq> []
      \<and> Now example_clock (ticks empty_world) < ExpiresAt (auth cached_client)"
    by (simp add: cached_client_def example_clock_def example_env_def empty_world_def Hour_def)
  have invalid: "\<not> (Token (auth example_client) \<noteq> []
      \<and> Now example_clock (ticks empty_world) < ExpiresAt (auth example_client))"
    by (simp add: example_client_def zero_AuthConfig_def)
  have hit: "Authenticate example_clock cached_client empty_world =
      (None, cached_client,
       empty_world\<lparr>ticks := ticks empty_world + 2,
         logs := logs empty_world @ [LogUsingExisting (ExpiresAt (auth cached_client)
           - Now example_clock (Suc (ticks empty_world)))]\<rparr>)"
    using valid Authenticate_cached_or_local_token [of cached_client example_clock empty_world]
    by blast
  have miss: "(let k = (if Token (auth example_client) \<noteq> [] then Suc (ticks empty_world)
                         else ticks empty_world)
       in Authenticate example_clock example_client empty_world =
           (None,
            example_client\<lparr>auth := (auth example_client)\<lparr>Token :=
                ''simulated_token_'' @ FormatRFC3339 example_clock (Now example_clock k),
              ExpiresAt := Now example_clock (Suc k) + 24 * Hour\<rparr>\<rparr>,
            empty_world\<lparr>ticks := k + 3,
              logs := logs empty_world @ [LogAuthenticating,
                LogAuthSuccess (Now example_clock (Suc k) + 24 * Hour
                  - Now example_clock (Suc (Suc k)))]\<rparr>))"
    and none: "auth_calls (snd (snd (Authenticate example_clock example_client empty_world)))
      = auth_calls empty_world"
    using invalid Authenticate_cached_or_local_token [of example_client example_clock empty_world]
    by blast+
  have a: "Authenticate example_clock cached_client empty_world =
     (None, cached_client,
      empty_world\<lparr>ticks := 2, logs := [LogUsingExisting (24 * Hour - 1000000000)]\<rparr>)"
    unfolding hit
    by (simp add: cached_client_def example_clock_def example_env_def empty_world_def)
  have b: "Authenticate example_clock example_client empty_world =
     (None,
      example_client\<lparr>auth := zero_AuthConfig\<lparr>Token := ''simulated_token_0001-01-01T00:00:00Z'',
                                                ExpiresAt := 1000000000 + 24 * Hour\<rparr>\<rparr>,
      empty_world\<lparr>ticks := 3,
        logs := [LogAuthenticating, LogAuthSuccess (24 * Hour - 1000000000)]\<rparr>)"
    using miss
    by (simp add: example_client_def zero_AuthConfig_def example_clock_def
        example_env_def empty_world_def Let_def format_first_minute_0)
  from a b none show ?thesis by (simp add: empty_world_def)
qed

text \<open>
  C5 as the specification states it fails in its second half. A fresh client has no
  cached credential, yet \<^verbatim>\<open>Authenticate\<close> sends no authentication request and stores a
  token it made itself, where the endpoint would have issued another one: the same world
  records the request when \<^verbatim>\<open>(*BlessnetNodeAPI).Auth\<close> is called.
\<close>

theorem Authenticate_no_exchange_counterexample:
  "\<not> (Token (auth example_client) \<noteq> []
        \<and> Now example_clock (ticks empty_world) < ExpiresAt (auth example_client))
   \<and> auth_calls (snd (snd (Authenticate example_clock example_client empty_world))) = []
   \<and> worker_calls (snd (snd (Authenticate example_clock example_client empty_world))) = []
   \<and> exchanges (snd (snd (Authenticate example_clock example_client empty_world))) = []
   \<and> Token (auth (fst (snd (Authenticate example_clock example_client empty_world))))
        = ''simulated_token_0001-01-01T00:00:00Z''
   \<and> auth_calls (snd (Auth example_clock example_api ''key'' ''secret'' empty_world))
        = [(''https://api.bless.network/v1/auth'', ''key'', ''secret'')]
   \<and> fst (Auth example_clock example_api ''key'' ''secret'' empty_world)
        = Inr \<lparr>AccessToken = ''issued-by-the-api'', TokenType = ''Bearer'', ExpiresIn = 3600,
               RefreshToken = [], resp_ExpiresAt = 3600000000000\<rparr>"
  by (simp add: example_client_def zero_AuthConfig_def Authenticate_def time_Now_def
      example_clock_def example_env_def empty_world_def Let_def log_Printf_def
      format_first_minute_0 Auth_def example_api_def example_post_def StatusOK_def
      Duration_Seconds_def)

text \<open>
  C7 (as the code has it). \<^verbatim>\<open>Authenticate\<close> returns nil for every client and every
  world. The client it leaves is the client it got when the cached credential is valid,
  and otherwise that client with the token \<open>simulated_token_\<close> followed by the
  formatted clock reading and the expiry 24 hours after the next reading. It reads no
  credentials: with another configuration, or another user name and password, the result
  is the same but for that configuration, user name and password. It sends nothing: no
  authentication request, no worker call, no DNS exchange.
\<close>

theorem Authenticate_never_fails:
  "fst (Authenticate e b w) = None
   \<and> fst (snd (Authenticate e b w)) =
       (if Token (auth b) \<noteq> [] \<and> Now e (ticks w) < ExpiresAt (auth b) then b
        else (let k = (if Token (auth b) \<noteq> [] then Suc (ticks w) else ticks w)
              in b\<lparr>auth := (auth b)\<lparr>Token := ''simulated_token_'' @ FormatRFC3339 e (Now e k),
                                      ExpiresAt := Now e (Suc k) + 24 * Hour\<rparr>\<rparr>))
   \<and> Authenticate e (b\<lparr>client_Config := config\<rparr>) w =
       (case Authenticate e b w of (err, b', w') \<Rightarrow> (err, b'\<lparr>client_Config := config\<rparr>, w'))
   \<and> Authenticate e (b\<lparr>auth := (auth b)\<lparr>Username := user, Password := pass\<rparr>\<rparr>) w =
       (case Authenticate e b w of
          (err, b', w') \<Rightarrow> (err, b'\<lparr>auth := (auth b')\<lparr>Username := user, Password := pass\<rparr>\<rparr>, w'))
   \<and> auth_calls (snd (snd (Authenticate e b w))) = auth_calls w
   \<and> worker_calls (snd (snd (Authenticate e b w))) = worker_calls w
   \<and> exchanges (snd (snd (Authenticate e b w))) = exchanges w"
  using Authenticate_client [of e b w] Authenticate_config [where e = e and b = b and w = w]
    Authenticate_user [where e = e and b = b and w = w] Authenticate_frame [of e b w]
  by blast

theorem Authenticate_never_fails_witness:
  "fst (Authenticate example_clock example_client empty_world) = None
   \<and> fst (snd (Authenticate example_clock example_client empty_world)) =
       example_client\<lparr>auth := zero_AuthConfig\<lparr>Token := ''simulated_token_0001-01-01T00:00:00Z'',
                                                 ExpiresAt := 1000000000 + 24 * Hour\<rparr>\<rparr>
   \<and> fst (snd (Authenticate example_clock cached_client empty_world)) = cached_client
   \<and> auth_calls (snd (snd (Authenticate example_clock example_client empty_world))) = []"
proof -
  have valid: "Token (auth cached_client) \<noteq> []
      \<and> Now example_clock (ticks empty_world) < ExpiresAt (auth cached_client)"
    by (simp add: cached_client_def example_clock_def example_env_def empty_world_def Hour_def)
  have invalid: "\<not> (Token (auth example_client) \<noteq> []
      \<and> Now example_clock (ticks empty_world) < ExpiresAt (auth example_client))"
    by (simp add: example_client_def zero_AuthConfig_def)
  have nil: "fst (Authenticate example_clock example_client empty_world) = None"
    and none: "auth_calls (snd (snd (Authenticate example_clock example_client empty_world)))
      = auth_calls empty_world"
    and miss: "fst (snd (Authenticate example_clock example_client empty_world)) =
       (if Token (auth example_client) \<noteq> []
           \<and> Now example_clock (ticks empty_world) < ExpiresAt (auth example_client)
        then example_client
        else (let k = (if Token (auth example_client) \<noteq> [] then Suc (ticks empty_world)
                       else ticks empty_world)
              in example_client\<lparr>auth := (auth example_client)\<lparr>Token :=
                   ''simulated_token_'' @ FormatRFC3339 example_clock (Now example_clock k),
                   ExpiresAt := Now example_clock (Suc k) + 24 * Hour\<rparr>\<rparr>))"
    using Authenticate_never_fails [of example_clock example_client empty_world]
    by blast+
  have hit: "fst (snd (Authenticate example_clock cached_client empty_world)) =
       (if Token (auth cached_client) \<noteq> []
           \<and> Now example_clock (ticks empty_world) < ExpiresAt (auth cached_client)
        then cached_client
        else (let k = (if Token (auth cached_client) \<noteq> [] then Suc (ticks empty_world)
                       else ticks empty_world)
              in cached_client\<lparr>auth := (auth cached_client)\<lparr>Token :=
                   ''simulated_token_'' @ FormatRFC3339 example_clock (Now example_clock k),
                   ExpiresAt := Now example_clock (Suc k) + 24 * Hour\<rparr>\<rparr>))"
    using Authenticate_never_fails [of example_clock cached_client empty_world]
    by blast
  have a: "fst (snd (Authenticate example_clock cached_client empty_world)) = cached_client"
    using valid by (subst hit) (simp only: if_True simp_thms)
  have b: "fst (snd (Authenticate example_clock example_client empty_world)) =
       example_client\<lparr>auth := zero_AuthConfig\<lparr>Token := ''simulated_token_0001-01-01T00:00:00Z'',
                                                 ExpiresAt := 1000000000 + 24 * Hour\<rparr>\<rparr>"
    unfolding miss
    by (simp add: example_client_def zero_AuthConfig_def example_clock_def
        example_env_def empty_world_def Let_def format_first_minute_0)
  from nil a b none show ?thesis by (simp add: empty_world_def)
qed

text \<open>
  C7 as the specification states it fails: a client whose configuration has neither API
  key nor API secret authenticates with a nil error and holds a token afterwards.
\<close>

theorem Authenticate_missing_credentials_counterexample:
  "BlessnetAPIKey (client_Config example_client) = []
   \<and> BlessnetAPISecret (client_Config example_client) = []
   \<and> fst (Authenticate example_clock example_client empty_world) = None
   \<and> Token (auth (fst (snd (Authenticate example_clock example_client empty_world))))
        = ''simulated_token_0001-01-01T00:00:00Z''"
  by (simp add: example_client_def example_config_def Authenticate_def zero_AuthConfig_def
      time_Now_def example_clock_def example_env_def empty_world_def Let_def log_Printf_def
      format_first_minute_0)

text \<open>
  C8 (as the code has it). Of two \<^verbatim>\<open>RefreshAuth\<close> calls, the second made on the client
  that the first left, in any world: both return nil; each stores the token
  \<open>simulated_token_\<close> followed by the formatted clock reading of its call, which is
  never empty, and the expiry 24 hours after its next reading. The second expiry is
  strictly later than the first exactly when that reading of the second call is strictly
  later than that of the first, and it is not earlier when the clock never goes back.
  The second token is the same as the first exactly when the two readings are formatted
  alike.
\<close>

theorem RefreshAuth_twice:
  assumes "RefreshAuth e b w = (err1, b1, w1)" and "RefreshAuth e b1 v = (err2, b2, w2)"
  shows "err1 = None \<and> err2 = None
    \<and> ticks w1 = ticks w + 3
    \<and> Token (auth b1) = ''simulated_token_'' @ FormatRFC3339 e (Now e (ticks w))
    \<and> ExpiresAt (auth b1) = Now e (Suc (ticks w)) + 24 * Hour
    \<and> Token (auth b2) = ''simulated_token_'' @ FormatRFC3339 e (Now e (ticks v))
    \<and> ExpiresAt (auth b2) = Now e (Suc (ticks v)) + 24 * Hour
    \<and> Token (auth b1) \<noteq> [] \<and> Token (auth b2) \<noteq> []
    \<and> (ExpiresAt (auth b1) < ExpiresAt (auth b2) \<longleftrightarrow> Now e (Suc (ticks w)) < Now e (Suc (ticks v)))
    \<and> (Token (auth b2) = Token (auth b1)
          \<longleftrightarrow> FormatRFC3339 e (Now e (ticks v)) = FormatRFC3339 e (Now e (ticks w)))
    \<and> (mono (Now e) \<and> ticks w \<le> ticks v \<longrightarrow> ExpiresAt (auth b1) \<le> ExpiresAt (auth b2))"
proof -
  from assms(1) RefreshAuth_result [of e b w]
  have one: "err1 = None" "ticks w1 = ticks w + 3"
    "Token (auth b1) = ''simulated_token_'' @ FormatRFC3339 e (Now e (ticks w))"
    "ExpiresAt (auth b1) = Now e (Suc (ticks w)) + 24 * Hour"
    by auto
  from assms(2) RefreshAuth_result [of e b1 v]
  have two: "err2 = None"
    "Token (auth b2) = ''simulated_token_'' @ FormatRFC3339 e (Now e (ticks v))"
    "ExpiresAt (auth b2) = Now e (Suc (ticks v)) + 24 * Hour"
    by auto
  have m: "mono (Now e) \<and> ticks w \<le> ticks v \<longrightarrow> Now e (Suc (ticks w)) \<le> Now e (Suc (ticks v))"
    by (simp add: mono_def)
  from one two m show ?thesis by simp
qed

theorem RefreshAuth_twice_witness:
  "fst (twice_refreshed example_clock) = None
   \<and> Token (auth (fst (snd (once_refreshed example_clock))))
        = ''simulated_token_0001-01-01T00:00:00Z''
   \<and> Token (auth (fst (snd (twice_refreshed example_clock))))
        = ''simulated_token_0001-01-01T00:00:03Z''
   \<and> ExpiresAt (auth (fst (snd (once_refreshed example_clock))))
        < ExpiresAt (auth (fst (snd (twice_refreshed example_clock))))"
proof -
  let ?e = example_clock
  have r1: "RefreshAuth ?e example_client empty_world =
      (fst (once_refreshed ?e), fst (snd (once_refreshed ?e)), snd (snd (once_refreshed ?e)))"
    by (simp add: once_refreshed_def)
  have r2: "RefreshAuth ?e (fst (snd (once_refreshed ?e))) (snd (snd (once_refreshed ?e))) =
      (fst (twice_refreshed ?e), fst (snd (twice_refreshed ?e)), snd (snd (twice_refreshed ?e)))"
    by (simp add: twice_refreshed_def)
  note t = RefreshAuth_twice [OF r1 r2]
  have clock: "Now ?e = (\<lambda>n. int n * 1000000000)" "FormatRFC3339 ?e = format_first_minute"
    by (simp_all add: example_clock_def example_env_def)
  have ticks: "ticks empty_world = 0" by (simp add: empty_world_def)
  from t have w1: "ticks (snd (snd (once_refreshed ?e))) = 3" by (simp add: ticks)
  from t have a: "fst (twice_refreshed ?e) = None" by blast
  from t have b: "Token (auth (fst (snd (once_refreshed ?e)))) =
      ''simulated_token_'' @ FormatRFC3339 ?e (Now ?e (ticks empty_world))" by blast
  from t have c: "Token (auth (fst (snd (twice_refreshed ?e)))) =
      ''simulated_token_'' @ FormatRFC3339 ?e (Now ?e (ticks (snd (snd (once_refreshed ?e)))))"
    by blast
  from t have d: "ExpiresAt (auth (fst (snd (once_refreshed ?e))))
        < ExpiresAt (auth (fst (snd (twice_refreshed ?e))))
      \<longleftrightarrow> Now ?e (Suc (ticks empty_world)) < Now ?e (Suc (ticks (snd (snd (once_refreshed ?e)))))"
    by blast
  show ?thesis
    using a b c d
    by (simp add: w1 ticks clock format_first_minute_0 format_first_minute_3s)
qed

text \<open>
  C8 as the specification states it fails. With a clock that advances by a millisecond
  per reading, two forced refreshes, the second before the first credential expires,
  store the same token, since the format has a resolution of one second. With a clock
  that shows a new value only every eighth reading, the token and the expiry are both the
  same, so the expiry is not later.
\<close>

theorem RefreshAuth_same_credential_counterexample:
  "Now millisecond_clock (ticks (snd (snd (once_refreshed millisecond_clock))))
     < ExpiresAt (auth (fst (snd (once_refreshed millisecond_clock))))
   \<and> Token (auth (fst (snd (once_refreshed millisecond_clock))))
        = ''simulated_token_0001-01-01T00:00:00Z''
   \<and> Token (auth (fst (snd (twice_refreshed millisecond_clock))))
        = ''simulated_token_0001-01-01T00:00:00Z''
   \<and> Now coarse_clock (ticks (snd (snd (once_refreshed coarse_clock))))
     < ExpiresAt (auth (fst (snd (once_refreshed coarse_clock))))
   \<and> auth (fst (snd (twice_refreshed coarse_clock))) = auth (fst (snd (once_refreshed coarse_clock)))"
  by (simp add: twice_refreshed_def once_refreshed_def RefreshAuth_result millisecond_clock_def
      coarse_clock_def example_clock_def example_env_def empty_world_def Hour_def
      format_first_minute_0 format_first_minute_3ms example_client_def zero_AuthConfig_def)

subsection \<open>Two concurrent callers\<close>

text \<open>
  One goroutine that runs alone does what \<^verbatim>\<open>Authenticate\<close> does, also beside another
  goroutine that does not move.
\<close>

lemmas step_defs = step_def move_def time_Now_def log_Printf_def Let_def

lemma run_one_caller:
  "run e [0, 0, 0, 0, 0, 0, 0] \<lparr>client = b, cworld = w, holder = None, positions = [AtCheck]\<rparr> =
     (case Authenticate e b w of
        (err, b', w') \<Rightarrow> \<lparr>client = b', cworld = w', holder = None, positions = [ReturnedNil]\<rparr>)"
proof (cases "Token (auth b) \<noteq> [] \<and> Now e (ticks w) < ExpiresAt (auth b)")
  case True
  then show ?thesis
    by (simp add: Authenticate_valid step_defs)
next
  case False
  show ?thesis
  proof (cases "Token (auth b) = []")
    case True
    then show ?thesis
      by (simp add: Authenticate_issue [OF False refl] step_defs)
  next
    case nonempty: False
    with False have "\<not> Now e (ticks w) < ExpiresAt (auth b)" by simp
    with nonempty show ?thesis
      by (simp add: Authenticate_issue [OF False refl] step_defs)
  qed
qed









end
